theory Spec2Isabelle
  imports Complex_Main "HOL-Library.Word"
begin

section \<open>The preview layer of the path tracer (src/preview.cpp)\<close>

text \<open>
  The file is glue code over GLFW, GLEW, OpenGL and the CUDA interop API. The embedding
  keeps its global variables in a record, threads that record through every function,
  and appends every call into one of the external libraries to a trace. What an
  external call answers (whether a window could be created, which buffer names the
  driver hands out, whether the window was asked to close) is read from an environment
  record, so every theorem is about all answers the libraries may give.

  The trace holds the calls that the functions of the file make themselves. The two
  callbacks handed to GLFW run inside GLFW, when GLFW decides: \<^verbatim>\<open>errorCallback\<close> prints
  the description it is given to \<^verbatim>\<open>stderr\<close> and touches no variable, \<^verbatim>\<open>keyCallback\<close> is
  defined in another file. Neither has an entry in the trace. \<^verbatim>\<open>currentTimeString\<close> is
  called by no function of the file.
\<close>

subsection \<open>C and OpenGL types\<close>

type_synonym GLuint = "32 word"
type_synonym GLint = "32 word"
type_synonym GLushort = "16 word"
type_synonym GLfloat = real
type_synonym cint = "32 word"
type_synonym size_t = "64 word"

text \<open>A \<^verbatim>\<open>GLFWwindow*\<close>; the null pointer is 0.\<close>
type_synonym GLFWwindow_ptr = nat

text \<open>A \<^verbatim>\<open>PacketManager*\<close>, the first argument of \<^verbatim>\<open>mainLoop\<close>.\<close>
type_synonym PacketManager_ptr = nat

definition NULL :: nat where
  "NULL = 0"

text \<open>The enumerators of \<^verbatim>\<open>GLenum\<close> that the file uses.\<close>
datatype GLenum =
    GL_TEXTURE_2D | GL_TEXTURE_MAG_FILTER | GL_TEXTURE_MIN_FILTER | GL_NEAREST
  | GL_RGBA8 | GL_RGBA | GL_BGRA | GL_UNSIGNED_BYTE | GL_UNSIGNED_SHORT | GL_FLOAT
  | GL_ARRAY_BUFFER | GL_ELEMENT_ARRAY_BUFFER | GL_PIXEL_UNPACK_BUFFER
  | GL_STATIC_DRAW | GL_DYNAMIC_COPY | GL_COLOR_BUFFER_BIT | GL_TRIANGLES | GL_TEXTURE0

text \<open>What the data pointer of \<^verbatim>\<open>glBufferData\<close> points to.\<close>
datatype buffer_data = NullData | FloatData "GLfloat list" | UShortData "GLushort list"

text \<open>The functions registered with \<^verbatim>\<open>atexit\<close>.\<close>
datatype hook = CleanupCuda

datatype exit_code = EXIT_SUCCESS | EXIT_FAILURE

text \<open>The addresses of the two global handles, as \<^verbatim>\<open>deletePBO\<close> and
  \<^verbatim>\<open>deleteTexture\<close> receive them; a null pointer is \<open>None\<close>.\<close>
datatype handle_ref = Ref_pbo | Ref_displayImage

subsection \<open>Calls into the external libraries\<close>

text \<open>One constructor for each external function that the file names, with the
  arguments passed. \<open>SendPacket\<close> is \<^verbatim>\<open>PacketSender::sendPacket\<close>, which only the
  commented-out tiling code names.\<close>
datatype event =
    GlfwSetErrorCallback
  | GlfwInit
  | GlfwCreateWindow cint cint string
  | GlfwTerminate
  | GlfwMakeContextCurrent GLFWwindow_ptr
  | GlfwSetKeyCallback GLFWwindow_ptr
  | GlewInit
  | GlGenBuffers nat
  | GlBindBuffer GLenum GLuint
  | GlBufferData GLenum int buffer_data GLenum
  | GlVertexAttribPointer GLuint int GLenum bool int nat
  | GlEnableVertexAttribArray GLuint
  | GlGenTextures nat
  | GlBindTexture GLenum GLuint
  | GlTexParameteri GLenum GLenum GLenum
  | GlTexImage2D GLenum int GLenum cint cint int GLenum GLenum
  | CudaGLSetGLDevice int
  | Atexit hook
  | CudaGLRegisterBufferObject GLuint
  | CreateDefaultProgram "string list" nat
  | GlGetUniformLocation GLuint string
  | GlUniform1i GLint int
  | GlUseProgram GLuint
  | GlActiveTexture GLenum
  | CudaGLUnregisterBufferObject GLuint
  | GlDeleteBuffers "GLuint list"
  | GlDeleteTextures "GLuint list"
  | GlfwWindowShouldClose GLFWwindow_ptr
  | GlfwPollEvents
  | RunCuda
  | GlfwSetWindowTitle GLFWwindow_ptr string
  | GlTexSubImage2D GLenum int int int cint cint GLenum GLenum
  | GlClear GLenum
  | GlDrawElements GLenum nat GLenum nat
  | GlfwSwapBuffers GLFWwindow_ptr
  | GlfwDestroyWindow GLFWwindow_ptr
  | ProcessExit exit_code
  | SendPacket PacketManager_ptr string

subsection \<open>The environment: what the external calls answer\<close>

record env =
  glfwInit_ok :: bool
  glfwCreateWindow_result :: GLFWwindow_ptr
  glewInit_ok :: bool
  vertexBufferObjID :: "nat \<Rightarrow> GLuint"
  texture_name :: GLuint
  pbo_name :: GLuint
  createDefaultProgram_result :: GLuint
  glGetUniformLocation_result :: GLint
  shouldClose :: "nat \<Rightarrow> bool"
  iteration_after :: "nat \<Rightarrow> cint"
  convertIntToString :: "cint \<Rightarrow> string"

text \<open>
  \<^item> \<open>glfwInit_ok\<close>, \<open>glewInit_ok\<close>: whether \<^verbatim>\<open>glfwInit()\<close> is nonzero and whether
    \<^verbatim>\<open>glewInit() == GLEW_OK\<close>; \<open>glfwCreateWindow_result\<close>: the pointer returned by
    \<^verbatim>\<open>glfwCreateWindow\<close>.
  \<^item> \<open>vertexBufferObjID i\<close>: element \<open>i\<close> of the local array of that name, as
    \<^verbatim>\<open>glGenBuffers(3, vertexBufferObjID)\<close> fills it; \<open>pbo_name\<close>, \<open>texture_name\<close>: the
    names written by \<^verbatim>\<open>glGenBuffers(1, &pbo)\<close> and \<^verbatim>\<open>glGenTextures(1, &displayImage)\<close>;
    \<open>createDefaultProgram_result\<close>: the program returned by
    \<^verbatim>\<open>glslUtility::createDefaultProgram\<close>.
  \<^item> \<open>shouldClose k\<close>: the answer of the \<open>k\<close>-th call of \<^verbatim>\<open>glfwWindowShouldClose\<close>
    (counted from 0).
  \<^item> \<open>iteration_after k\<close>: the value of the global \<^verbatim>\<open>iteration\<close> when the \<open>k\<close>-th call
    of \<^verbatim>\<open>runCuda\<close> returns.
  \<^item> \<open>convertIntToString\<close>: \<^verbatim>\<open>utilityCore::convertIntToString\<close>, defined in a file
    that is not part of the source given.
\<close>

subsection \<open>The program state\<close>

record state =
  pbo :: GLuint
  displayImage :: GLuint
  window :: GLFWwindow_ptr
  width :: cint
  height :: cint
  iteration :: cint
  glewExperimental :: bool
  atexit_hooks :: "hook list"
  live_buffers :: "GLuint set"
  live_textures :: "GLuint set"
  live_programs :: "GLuint set"
  cuda_registered :: "GLuint set"
  buffer_binding :: "GLenum \<Rightarrow> GLuint"
  texture_binding :: GLuint
  buffer_store :: "GLuint \<Rightarrow> (int \<times> buffer_data) option"
  texture_store :: "GLuint \<Rightarrow> (GLenum \<times> int \<times> int) option"
  uploads :: "(GLuint \<times> GLuint) list"
  draws :: "GLushort list list"
  checks :: nat
  renders :: nat
  trace :: "event list"

text \<open>
  \<^item> \<open>pbo\<close>, \<open>displayImage\<close>, \<open>window\<close>: the globals of the file; \<open>width\<close>, \<open>height\<close>,
    \<open>iteration\<close>: the \<^verbatim>\<open>extern int\<close> globals it reads; \<open>glewExperimental\<close>: GLEW's.
  \<^item> \<open>atexit_hooks\<close>: the functions registered with \<^verbatim>\<open>atexit\<close>, the last registered
    first.
  \<^item> \<open>live_buffers\<close>, \<open>live_textures\<close>, \<open>live_programs\<close>: the object names generated
    and neither deleted nor destroyed with their context; \<open>cuda_registered\<close>: the buffers
    registered with CUDA.
  \<^item> \<open>buffer_binding\<close>, \<open>texture_binding\<close>: the buffer bound to each target, the
    texture bound to \<open>GL_TEXTURE_2D\<close>; \<open>buffer_store\<close>: size and contents of each
    buffer's data store; \<open>texture_store\<close>: internal format, width and height of each
    texture image.
  \<^item> \<open>uploads\<close>: for each \<^verbatim>\<open>glTexSubImage2D\<close> with a null data pointer, the unpack
    buffer read and the texture written; \<open>draws\<close>: for each \<^verbatim>\<open>glDrawElements\<close>, the
    indices fetched from the element array buffer.
  \<^item> \<open>checks\<close>, \<open>renders\<close>: how many times \<^verbatim>\<open>glfwWindowShouldClose\<close> and
    \<^verbatim>\<open>runCuda\<close> have been called; \<open>trace\<close>: the external calls made so far.
\<close>

text \<open>\<^verbatim>\<open>GLuint positionLocation = 0; GLuint texcoordsLocation = 1;\<close> are never assigned.\<close>

definition positionLocation :: GLuint where
  "positionLocation = 0"

definition texcoordsLocation :: GLuint where
  "texcoordsLocation = 1"

text \<open>The state at program start: globals are zero-initialised, nothing has been
  called. Width, height and the iteration count are set elsewhere.\<close>

definition initial_state :: "cint \<Rightarrow> cint \<Rightarrow> cint \<Rightarrow> state" where
  "initial_state w h it =
     \<lparr> pbo = 0, displayImage = 0, window = NULL, width = w, height = h, iteration = it,
       glewExperimental = False, atexit_hooks = [],
       live_buffers = {}, live_textures = {}, live_programs = {}, cuda_registered = {},
       buffer_binding = (\<lambda>t. 0), texture_binding = 0,
       buffer_store = (\<lambda>b. None), texture_store = (\<lambda>t. None),
       uploads = [], draws = [], checks = 0, renders = 0, trace = [] \<rparr>"

text \<open>How a call ends: it returns a value, the process has exited, or the fuel given
  to the render loop ran out while the loop was still running.\<close>

datatype 'a outcome = Returned 'a state | Exited exit_code state | OutOfFuel state

fun returned_value :: "'a outcome \<Rightarrow> 'a option" where
  "returned_value (Returned v s) = Some v"
| "returned_value (Exited c s) = None"
| "returned_value (OutOfFuel s) = None"

fun exit_status :: "'a outcome \<Rightarrow> exit_code option" where
  "exit_status (Returned v s) = None"
| "exit_status (Exited c s) = Some c"
| "exit_status (OutOfFuel s) = None"

fun final_state :: "'a outcome \<Rightarrow> state" where
  "final_state (Returned v s) = s"
| "final_state (Exited c s) = s"
| "final_state (OutOfFuel s) = s"

definition emit :: "event \<Rightarrow> state \<Rightarrow> state" where
  "emit e s = s\<lparr>trace := trace s @ [e]\<rparr>"

subsection \<open>The external functions, as far as the file depends on them\<close>

definition glfwSetErrorCallback :: "state \<Rightarrow> state" where
  "glfwSetErrorCallback s = emit GlfwSetErrorCallback s"

definition glfwInit :: "env \<Rightarrow> state \<Rightarrow> bool \<times> state" where
  "glfwInit e s = (glfwInit_ok e, emit GlfwInit s)"

definition glfwCreateWindow :: "env \<Rightarrow> cint \<Rightarrow> cint \<Rightarrow> string \<Rightarrow> state \<Rightarrow> GLFWwindow_ptr \<times> state" where
  "glfwCreateWindow e w h title s =
     (glfwCreateWindow_result e, emit (GlfwCreateWindow w h title) s)"

text \<open>The file calls \<^verbatim>\<open>glfwTerminate\<close> only where no window exists: after a failed
  \<^verbatim>\<open>glfwCreateWindow\<close>, and after \<^verbatim>\<open>glfwDestroyWindow\<close>. There is no context left for it
  to destroy.\<close>

definition glfwTerminate :: "state \<Rightarrow> state" where
  "glfwTerminate s = emit GlfwTerminate s"

definition glfwMakeContextCurrent :: "GLFWwindow_ptr \<Rightarrow> state \<Rightarrow> state" where
  "glfwMakeContextCurrent w s = emit (GlfwMakeContextCurrent w) s"

definition glfwSetKeyCallback :: "GLFWwindow_ptr \<Rightarrow> state \<Rightarrow> state" where
  "glfwSetKeyCallback w s = emit (GlfwSetKeyCallback w) s"

definition glewInit :: "env \<Rightarrow> state \<Rightarrow> bool \<times> state" where
  "glewInit e s = (glewInit_ok e, emit GlewInit s)"

text \<open>\<^verbatim>\<open>glGenBuffers(n, ids)\<close>: the names handed out become names in use.\<close>

definition glGenBuffers :: "GLuint list \<Rightarrow> state \<Rightarrow> state" where
  "glGenBuffers names s =
     emit (GlGenBuffers (length names)) (s\<lparr>live_buffers := live_buffers s \<union> set names\<rparr>)"

definition glBindBuffer :: "GLenum \<Rightarrow> GLuint \<Rightarrow> state \<Rightarrow> state" where
  "glBindBuffer target b s =
     emit (GlBindBuffer target b) (s\<lparr>buffer_binding := (buffer_binding s)(target := b)\<rparr>)"

text \<open>\<^verbatim>\<open>glBufferData\<close> replaces the data store of the buffer bound to the target; with
  no buffer bound it is an error and stores nothing.\<close>

definition glBufferData :: "GLenum \<Rightarrow> int \<Rightarrow> buffer_data \<Rightarrow> GLenum \<Rightarrow> state \<Rightarrow> state" where
  "glBufferData target sz d usage s =
     emit (GlBufferData target sz d usage)
       (s\<lparr>buffer_store :=
            (if buffer_binding s target = 0 then buffer_store s
             else (buffer_store s)(buffer_binding s target := Some (sz, d)))\<rparr>)"

definition glVertexAttribPointer :: "GLuint \<Rightarrow> int \<Rightarrow> GLenum \<Rightarrow> bool \<Rightarrow> int \<Rightarrow> nat \<Rightarrow> state \<Rightarrow> state" where
  "glVertexAttribPointer loc n ty normalized stride off s =
     emit (GlVertexAttribPointer loc n ty normalized stride off) s"

definition glEnableVertexAttribArray :: "GLuint \<Rightarrow> state \<Rightarrow> state" where
  "glEnableVertexAttribArray loc s = emit (GlEnableVertexAttribArray loc) s"

definition glGenTextures :: "GLuint list \<Rightarrow> state \<Rightarrow> state" where
  "glGenTextures names s =
     emit (GlGenTextures (length names)) (s\<lparr>live_textures := live_textures s \<union> set names\<rparr>)"

definition glBindTexture :: "GLenum \<Rightarrow> GLuint \<Rightarrow> state \<Rightarrow> state" where
  "glBindTexture target t s = emit (GlBindTexture target t) (s\<lparr>texture_binding := t\<rparr>)"

definition glTexParameteri :: "GLenum \<Rightarrow> GLenum \<Rightarrow> GLenum \<Rightarrow> state \<Rightarrow> state" where
  "glTexParameteri target pname v s = emit (GlTexParameteri target pname v) s"

text \<open>\<^verbatim>\<open>glTexImage2D\<close> with a null data pointer allocates the image of the bound
  texture.\<close>

definition glTexImage2D ::
  "GLenum \<Rightarrow> int \<Rightarrow> GLenum \<Rightarrow> cint \<Rightarrow> cint \<Rightarrow> int \<Rightarrow> GLenum \<Rightarrow> GLenum \<Rightarrow> state \<Rightarrow> state" where
  "glTexImage2D target level ifmt w h border fmt ty s =
     emit (GlTexImage2D target level ifmt w h border fmt ty)
       (s\<lparr>texture_store := (texture_store s)(texture_binding s := Some (ifmt, sint w, sint h))\<rparr>)"

definition cudaGLSetGLDevice :: "int \<Rightarrow> state \<Rightarrow> state" where
  "cudaGLSetGLDevice d s = emit (CudaGLSetGLDevice d) s"

definition atexit :: "hook \<Rightarrow> state \<Rightarrow> state" where
  "atexit h s = emit (Atexit h) (s\<lparr>atexit_hooks := h # atexit_hooks s\<rparr>)"

definition cudaGLRegisterBufferObject :: "GLuint \<Rightarrow> state \<Rightarrow> state" where
  "cudaGLRegisterBufferObject b s =
     emit (CudaGLRegisterBufferObject b) (s\<lparr>cuda_registered := insert b (cuda_registered s)\<rparr>)"

definition cudaGLUnregisterBufferObject :: "GLuint \<Rightarrow> state \<Rightarrow> state" where
  "cudaGLUnregisterBufferObject b s =
     emit (CudaGLUnregisterBufferObject b) (s\<lparr>cuda_registered := cuda_registered s - {b}\<rparr>)"

definition createDefaultProgram :: "env \<Rightarrow> string list \<Rightarrow> nat \<Rightarrow> state \<Rightarrow> GLuint \<times> state" where
  "createDefaultProgram e attribs n s =
     (createDefaultProgram_result e,
      emit (CreateDefaultProgram attribs n)
        (s\<lparr>live_programs := insert (createDefaultProgram_result e) (live_programs s)\<rparr>))"

definition glGetUniformLocation :: "env \<Rightarrow> GLuint \<Rightarrow> string \<Rightarrow> state \<Rightarrow> GLint \<times> state" where
  "glGetUniformLocation e p name s =
     (glGetUniformLocation_result e, emit (GlGetUniformLocation p name) s)"

definition glUniform1i :: "GLint \<Rightarrow> int \<Rightarrow> state \<Rightarrow> state" where
  "glUniform1i loc v s = emit (GlUniform1i loc v) s"

definition glUseProgram :: "GLuint \<Rightarrow> state \<Rightarrow> state" where
  "glUseProgram p s = emit (GlUseProgram p) s"

definition glActiveTexture :: "GLenum \<Rightarrow> state \<Rightarrow> state" where
  "glActiveTexture t s = emit (GlActiveTexture t) s"

text \<open>Deleting a buffer frees its name and its data store and resets the bindings that
  refer to it; deleting a texture likewise.\<close>

definition glDeleteBuffers :: "GLuint list \<Rightarrow> state \<Rightarrow> state" where
  "glDeleteBuffers names s =
     emit (GlDeleteBuffers names)
       (s\<lparr>live_buffers := live_buffers s - set names,
          buffer_binding := (\<lambda>t. if buffer_binding s t \<in> set names then 0 else buffer_binding s t),
          buffer_store := (\<lambda>b. if b \<in> set names then None else buffer_store s b)\<rparr>)"

definition glDeleteTextures :: "GLuint list \<Rightarrow> state \<Rightarrow> state" where
  "glDeleteTextures names s =
     emit (GlDeleteTextures names)
       (s\<lparr>live_textures := live_textures s - set names,
          texture_binding := (if texture_binding s \<in> set names then 0 else texture_binding s),
          texture_store := (\<lambda>t. if t \<in> set names then None else texture_store s t)\<rparr>)"

definition glfwWindowShouldClose :: "env \<Rightarrow> GLFWwindow_ptr \<Rightarrow> state \<Rightarrow> bool \<times> state" where
  "glfwWindowShouldClose e w s =
     (shouldClose e (checks s), emit (GlfwWindowShouldClose w) (s\<lparr>checks := Suc (checks s)\<rparr>))"

definition glfwPollEvents :: "state \<Rightarrow> state" where
  "glfwPollEvents s = emit GlfwPollEvents s"

definition glfwSetWindowTitle :: "GLFWwindow_ptr \<Rightarrow> string \<Rightarrow> state \<Rightarrow> state" where
  "glfwSetWindowTitle w title s = emit (GlfwSetWindowTitle w title) s"

text \<open>\<^verbatim>\<open>glTexSubImage2D\<close> with a null data pointer reads the buffer bound to
  \<open>GL_PIXEL_UNPACK_BUFFER\<close> into the bound texture.\<close>

definition glTexSubImage2D ::
  "GLenum \<Rightarrow> int \<Rightarrow> int \<Rightarrow> int \<Rightarrow> cint \<Rightarrow> cint \<Rightarrow> GLenum \<Rightarrow> GLenum \<Rightarrow> state \<Rightarrow> state" where
  "glTexSubImage2D target level x y w h fmt ty s =
     emit (GlTexSubImage2D target level x y w h fmt ty)
       (s\<lparr>uploads := uploads s @ [(buffer_binding s GL_PIXEL_UNPACK_BUFFER, texture_binding s)]\<rparr>)"

definition glClear :: "GLenum \<Rightarrow> state \<Rightarrow> state" where
  "glClear bits s = emit (GlClear bits) s"

text \<open>\<^verbatim>\<open>glDrawElements\<close> fetches \<open>count\<close> indices, from the offset on, out of the data
  store of the buffer bound to \<open>GL_ELEMENT_ARRAY_BUFFER\<close>.\<close>

definition fetch_indices :: "state \<Rightarrow> nat \<Rightarrow> nat \<Rightarrow> GLushort list" where
  "fetch_indices s count off =
     (case buffer_store s (buffer_binding s GL_ELEMENT_ARRAY_BUFFER) of
        Some (sz, UShortData xs) \<Rightarrow> take count (drop off xs)
      | _ \<Rightarrow> [])"

definition glDrawElements :: "GLenum \<Rightarrow> nat \<Rightarrow> GLenum \<Rightarrow> nat \<Rightarrow> state \<Rightarrow> state" where
  "glDrawElements mode count ty off s =
     emit (GlDrawElements mode count ty off) (s\<lparr>draws := draws s @ [fetch_indices s count off]\<rparr>)"

definition glfwSwapBuffers :: "GLFWwindow_ptr \<Rightarrow> state \<Rightarrow> state" where
  "glfwSwapBuffers w s = emit (GlfwSwapBuffers w) s"

text \<open>\<^verbatim>\<open>glfwDestroyWindow\<close> destroys the window and its OpenGL context. The file creates one
  window, with no context to share objects with, so every buffer, texture and program
  goes with it, and nothing is bound any more. With a null pointer the call does
  nothing. What CUDA has registered is CUDA's to forget: that takes
  \<^verbatim>\<open>cudaGLUnregisterBufferObject\<close>.\<close>

definition glfwDestroyWindow :: "GLFWwindow_ptr \<Rightarrow> state \<Rightarrow> state" where
  "glfwDestroyWindow w s =
     emit (GlfwDestroyWindow w)
       (s\<lparr>live_buffers := (if w = NULL then live_buffers s else {}),
          live_textures := (if w = NULL then live_textures s else {}),
          live_programs := (if w = NULL then live_programs s else {}),
          buffer_binding := (if w = NULL then buffer_binding s else (\<lambda>t. 0)),
          texture_binding := (if w = NULL then texture_binding s else 0),
          buffer_store := (if w = NULL then buffer_store s else (\<lambda>b. None)),
          texture_store := (if w = NULL then texture_store s else (\<lambda>t. None))\<rparr>)"

text \<open>Modelled from the spec: \<^verbatim>\<open>runCuda\<close>, the render step, is defined outside the
  source given. The spec calls it an external collaborator that writes pixel data into
  the buffer shared with OpenGL; the model takes it to return, with the globals of this
  file untouched and \<^verbatim>\<open>iteration\<close> holding what the environment says.\<close>

definition runCuda :: "env \<Rightarrow> state \<Rightarrow> state" where
  "runCuda e s =
     emit RunCuda (s\<lparr>iteration := iteration_after e (renders s), renders := Suc (renders s)\<rparr>)"

subsection \<open>The functions of preview.cpp\<close>

definition initTextures :: "env \<Rightarrow> state \<Rightarrow> state" where
  "initTextures e s =
     (let s = glGenTextures [texture_name e] s;
          s = s\<lparr>displayImage := texture_name e\<rparr>;
          s = glBindTexture GL_TEXTURE_2D (displayImage s) s;
          s = glTexParameteri GL_TEXTURE_2D GL_TEXTURE_MAG_FILTER GL_NEAREST s;
          s = glTexParameteri GL_TEXTURE_2D GL_TEXTURE_MIN_FILTER GL_NEAREST s
      in glTexImage2D GL_TEXTURE_2D 0 GL_RGBA8 (width s) (height s) 0 GL_BGRA GL_UNSIGNED_BYTE s)"

definition vertices :: "GLfloat list" where
  "vertices = [-1, -1,  1, -1,  1, 1,  -1, 1]"

definition texcoords :: "GLfloat list" where
  "texcoords = [1, 1,  0, 1,  0, 0,  1, 0]"

definition indices :: "GLushort list" where
  "indices = [0, 1, 3, 3, 1, 2]"

definition sizeof_GLfloat :: int where
  "sizeof_GLfloat = 4"

definition sizeof_GLushort :: int where
  "sizeof_GLushort = 2"

definition sizeof_GLubyte :: size_t where
  "sizeof_GLubyte = 1"

definition initVAO :: "env \<Rightarrow> state \<Rightarrow> state" where
  "initVAO e s =
     (let s = glGenBuffers [vertexBufferObjID e 0, vertexBufferObjID e 1, vertexBufferObjID e 2] s;
          s = glBindBuffer GL_ARRAY_BUFFER (vertexBufferObjID e 0) s;
          s = glBufferData GL_ARRAY_BUFFER (sizeof_GLfloat * int (length vertices))
                (FloatData vertices) GL_STATIC_DRAW s;
          s = glVertexAttribPointer positionLocation 2 GL_FLOAT False 0 0 s;
          s = glEnableVertexAttribArray positionLocation s;
          s = glBindBuffer GL_ARRAY_BUFFER (vertexBufferObjID e 1) s;
          s = glBufferData GL_ARRAY_BUFFER (sizeof_GLfloat * int (length texcoords))
                (FloatData texcoords) GL_STATIC_DRAW s;
          s = glVertexAttribPointer texcoordsLocation 2 GL_FLOAT False 0 0 s;
          s = glEnableVertexAttribArray texcoordsLocation s;
          s = glBindBuffer GL_ELEMENT_ARRAY_BUFFER (vertexBufferObjID e 2) s
      in glBufferData GL_ELEMENT_ARRAY_BUFFER (sizeof_GLushort * int (length indices))
           (UShortData indices) GL_STATIC_DRAW s)"

definition initShader :: "env \<Rightarrow> state \<Rightarrow> GLuint \<times> state" where
  "initShader e s =
     (case createDefaultProgram e [''Position'', ''Texcoords''] 2 s of (program, s) \<Rightarrow>
      case glGetUniformLocation e program ''u_image'' s of (location, s) \<Rightarrow>
      let s = (if location \<noteq> - 1 then glUniform1i location 0 s else s)
      in (program, s))"

definition deref :: "handle_ref \<Rightarrow> state \<Rightarrow> GLuint" where
  "deref r s = (case r of Ref_pbo \<Rightarrow> pbo s | Ref_displayImage \<Rightarrow> displayImage s)"

definition assign :: "handle_ref \<Rightarrow> GLuint \<Rightarrow> state \<Rightarrow> state" where
  "assign r v s = (case r of Ref_pbo \<Rightarrow> s\<lparr>pbo := v\<rparr> | Ref_displayImage \<Rightarrow> s\<lparr>displayImage := v\<rparr>)"

definition deletePBO :: "handle_ref option \<Rightarrow> state \<Rightarrow> state" where
  "deletePBO p s =
     (case p of
        None \<Rightarrow> s
      | Some r \<Rightarrow>
          let s = cudaGLUnregisterBufferObject (deref r s) s;
              s = glBindBuffer GL_ARRAY_BUFFER (deref r s) s;
              s = glDeleteBuffers [deref r s] s
          in assign r 0 s)"

definition deleteTexture :: "handle_ref \<Rightarrow> state \<Rightarrow> state" where
  "deleteTexture tex s =
     (let s = glDeleteTextures [deref tex s] s
      in assign tex 0 s)"

definition cleanupCuda :: "state \<Rightarrow> state" where
  "cleanupCuda s =
     (let s = (if pbo s \<noteq> 0 then deletePBO (Some Ref_pbo) s else s);
          s = (if displayImage s \<noteq> 0 then deleteTexture Ref_displayImage s else s)
      in s)"

definition initCuda :: "state \<Rightarrow> state" where
  "initCuda s =
     (let s = cudaGLSetGLDevice 0 s
      in atexit CleanupCuda s)"

text \<open>\<^verbatim>\<open>int\<close> is 32 bits wide and \<^verbatim>\<open>size_t\<close> 64: the two products are computed in
  \<^verbatim>\<open>int\<close>, the third in \<^verbatim>\<open>size_t\<close> and converted back to \<^verbatim>\<open>int\<close>.\<close>

definition num_texels :: "cint \<Rightarrow> cint \<Rightarrow> cint" where
  "num_texels w h = w * h"

definition num_values :: "cint \<Rightarrow> cint \<Rightarrow> cint" where
  "num_values w h = num_texels w h * 4"

definition size_tex_data :: "cint \<Rightarrow> cint \<Rightarrow> cint" where
  "size_tex_data w h = ucast (sizeof_GLubyte * (scast (num_values w h) :: size_t))"

definition initPBO :: "env \<Rightarrow> state \<Rightarrow> state" where
  "initPBO e s =
     (let s = glGenBuffers [pbo_name e] s;
          s = s\<lparr>pbo := pbo_name e\<rparr>;
          s = glBindBuffer GL_PIXEL_UNPACK_BUFFER (pbo s) s;
          s = glBufferData GL_PIXEL_UNPACK_BUFFER (sint (size_tex_data (width s) (height s)))
                NullData GL_DYNAMIC_COPY s
      in cudaGLRegisterBufferObject (pbo s) s)"

text \<open>\<^verbatim>\<open>exit\<close> runs the functions registered with \<^verbatim>\<open>atexit\<close>, the last registered
  first, and ends the process.\<close>

fun run_hook :: "hook \<Rightarrow> state \<Rightarrow> state" where
  "run_hook CleanupCuda s = cleanupCuda s"

fun run_atexit :: "hook list \<Rightarrow> state \<Rightarrow> state" where
  "run_atexit [] s = s"
| "run_atexit (h # hs) s = run_atexit hs (run_hook h s)"

definition exit_process :: "exit_code \<Rightarrow> state \<Rightarrow> 'a outcome" where
  "exit_process c s = Exited c (run_atexit (atexit_hooks s) (emit (ProcessExit c) s))"

definition init :: "env \<Rightarrow> state \<Rightarrow> bool outcome" where
  "init e s =
     (let s = glfwSetErrorCallback s in
      case glfwInit e s of (ok, s) \<Rightarrow>
      if \<not> ok then exit_process EXIT_FAILURE s
      else
        case glfwCreateWindow e (width s) (height s) ''CIS 565 Path Tracer'' s of (w, s) \<Rightarrow>
        let s = s\<lparr>window := w\<rparr> in
        if window s = NULL then Returned False (glfwTerminate s)
        else
          let s = glfwMakeContextCurrent (window s) s;
              s = glfwSetKeyCallback (window s) s;
              s = s\<lparr>glewExperimental := True\<rparr>
          in case glewInit e s of (glew_ok, s) \<Rightarrow>
             if \<not> glew_ok then Returned False s
             else
               let s = initVAO e s;
                   s = initTextures e s;
                   s = initCuda s;
                   s = initPBO e s
               in case initShader e s of (passthroughProgram, s) \<Rightarrow>
                  let s = glUseProgram passthroughProgram s;
                      s = glActiveTexture GL_TEXTURE0 s
                  in Returned True s)"

definition window_title :: "env \<Rightarrow> cint \<Rightarrow> string" where
  "window_title e it = ''CIS565 Path Tracer | '' @ convertIntToString e it @ '' Iterations''"

text \<open>One pass through the body of the \<^verbatim>\<open>while\<close> loop of \<^verbatim>\<open>mainLoop\<close>.\<close>

definition frame :: "env \<Rightarrow> state \<Rightarrow> state" where
  "frame e s =
     (let s = glfwPollEvents s;
          s = runCuda e s;
          title = window_title e (iteration s);
          s = glfwSetWindowTitle (window s) title s;
          s = glBindBuffer GL_PIXEL_UNPACK_BUFFER (pbo s) s;
          s = glBindTexture GL_TEXTURE_2D (displayImage s) s;
          s = glTexSubImage2D GL_TEXTURE_2D 0 0 0 (width s) (height s) GL_RGBA GL_UNSIGNED_BYTE s;
          s = glClear GL_COLOR_BUFFER_BIT s;
          s = glDrawElements GL_TRIANGLES 6 GL_UNSIGNED_SHORT 0 s
      in glfwSwapBuffers (window s) s)"

text \<open>The \<^verbatim>\<open>while\<close> loop. It may run forever, so it takes fuel: one unit for each
  evaluation of the loop condition.\<close>

fun renderLoop :: "nat \<Rightarrow> env \<Rightarrow> state \<Rightarrow> unit outcome" where
  "renderLoop 0 e s = OutOfFuel s"
| "renderLoop (Suc fuel) e s =
     (case glfwWindowShouldClose e (window s) s of (should_close, s) \<Rightarrow>
      if should_close then Returned () s
      else renderLoop fuel e (frame e s))"

text \<open>\<^verbatim>\<open>mainLoop\<close> declares a local \<^verbatim>\<open>int iter = 0\<close> that only the commented-out code
  below the loop body reads; the result of \<^verbatim>\<open>init()\<close> is discarded.\<close>

definition mainLoop :: "PacketManager_ptr \<Rightarrow> string \<Rightarrow> nat \<Rightarrow> env \<Rightarrow> state \<Rightarrow> unit outcome" where
  "mainLoop pMgr client_ip fuel e s =
     (case init e s of
        Exited c s \<Rightarrow> Exited c s
      | OutOfFuel s \<Rightarrow> OutOfFuel s
      | Returned ok s \<Rightarrow>
          (case renderLoop fuel e s of
             Returned u s \<Rightarrow>
               let s = glfwDestroyWindow (window s) s;
                   s = glfwTerminate s
               in Returned () s
           | Exited c s \<Rightarrow> Exited c s
           | OutOfFuel s \<Rightarrow> OutOfFuel s))"

subsection \<open>Vocabulary for the properties\<close>

text \<open>One pass through the loop: the loop condition is evaluated, found false, and the
  body runs. \<open>passes n\<close> is \<open>n\<close> passes in a row.\<close>

definition pass :: "env \<Rightarrow> state \<Rightarrow> state" where
  "pass e s = frame e (snd (glfwWindowShouldClose e (window s) s))"

fun passes :: "nat \<Rightarrow> env \<Rightarrow> state \<Rightarrow> state" where
  "passes 0 e s = s"
| "passes (Suc n) e s = pass e (passes n e s)"

text \<open>The external calls of the \<open>k\<close>-th pass (counted from 0) of a loop that starts in
  state \<open>s\<close>.\<close>

definition pass_calls :: "env \<Rightarrow> state \<Rightarrow> nat \<Rightarrow> event list" where
  "pass_calls e s k =
     [GlfwWindowShouldClose (window s),
      GlfwPollEvents,
      RunCuda,
      GlfwSetWindowTitle (window s) (window_title e (iteration_after e (renders s + k))),
      GlBindBuffer GL_PIXEL_UNPACK_BUFFER (pbo s),
      GlBindTexture GL_TEXTURE_2D (displayImage s),
      GlTexSubImage2D GL_TEXTURE_2D 0 0 0 (width s) (height s) GL_RGBA GL_UNSIGNED_BYTE,
      GlClear GL_COLOR_BUFFER_BIT,
      GlDrawElements GL_TRIANGLES 6 GL_UNSIGNED_SHORT 0,
      GlfwSwapBuffers (window s)]"

text \<open>The state in which \<^verbatim>\<open>init\<close> has a window and a context and has called
  \<^verbatim>\<open>glewInit\<close>, and the calls of an \<^verbatim>\<open>init\<close> that succeeds.\<close>

definition context_made :: "env \<Rightarrow> state \<Rightarrow> state" where
  "context_made e s =
     emit GlewInit
       (emit (GlfwSetKeyCallback (glfwCreateWindow_result e))
         (emit (GlfwMakeContextCurrent (glfwCreateWindow_result e))
           (emit (GlfwCreateWindow (width s) (height s) ''CIS 565 Path Tracer'')
             (emit GlfwInit (emit GlfwSetErrorCallback s))
            \<lparr>window := glfwCreateWindow_result e\<rparr>))
        \<lparr>glewExperimental := True\<rparr>)"

definition init_calls :: "env \<Rightarrow> state \<Rightarrow> event list" where
  "init_calls e s =
     [GlfwSetErrorCallback, GlfwInit,
      GlfwCreateWindow (width s) (height s) ''CIS 565 Path Tracer'',
      GlfwMakeContextCurrent (glfwCreateWindow_result e),
      GlfwSetKeyCallback (glfwCreateWindow_result e),
      GlewInit,
      GlGenBuffers 3,
      GlBindBuffer GL_ARRAY_BUFFER (vertexBufferObjID e 0),
      GlBufferData GL_ARRAY_BUFFER 32 (FloatData vertices) GL_STATIC_DRAW,
      GlVertexAttribPointer 0 2 GL_FLOAT False 0 0,
      GlEnableVertexAttribArray 0,
      GlBindBuffer GL_ARRAY_BUFFER (vertexBufferObjID e 1),
      GlBufferData GL_ARRAY_BUFFER 32 (FloatData texcoords) GL_STATIC_DRAW,
      GlVertexAttribPointer 1 2 GL_FLOAT False 0 0,
      GlEnableVertexAttribArray 1,
      GlBindBuffer GL_ELEMENT_ARRAY_BUFFER (vertexBufferObjID e 2),
      GlBufferData GL_ELEMENT_ARRAY_BUFFER 12 (UShortData indices) GL_STATIC_DRAW,
      GlGenTextures 1,
      GlBindTexture GL_TEXTURE_2D (texture_name e),
      GlTexParameteri GL_TEXTURE_2D GL_TEXTURE_MAG_FILTER GL_NEAREST,
      GlTexParameteri GL_TEXTURE_2D GL_TEXTURE_MIN_FILTER GL_NEAREST,
      GlTexImage2D GL_TEXTURE_2D 0 GL_RGBA8 (width s) (height s) 0 GL_BGRA GL_UNSIGNED_BYTE,
      CudaGLSetGLDevice 0,
      Atexit CleanupCuda,
      GlGenBuffers 1,
      GlBindBuffer GL_PIXEL_UNPACK_BUFFER (pbo_name e),
      GlBufferData GL_PIXEL_UNPACK_BUFFER (sint (size_tex_data (width s) (height s)))
        NullData GL_DYNAMIC_COPY,
      CudaGLRegisterBufferObject (pbo_name e),
      CreateDefaultProgram [''Position'', ''Texcoords''] 2,
      GlGetUniformLocation (createDefaultProgram_result e) ''u_image''] @
     (if glGetUniformLocation_result e \<noteq> - 1
      then [GlUniform1i (glGetUniformLocation_result e) 0] else []) @
     [GlUseProgram (createDefaultProgram_result e), GlActiveTexture GL_TEXTURE0]"

text \<open>The five steps of a frame that the specification names, and the call that
  performs each.\<close>

datatype step = PollInput | RenderStep | CopyToTexture | Draw | SwapBuffers

fun step_of :: "event \<Rightarrow> step option" where
  "step_of GlfwPollEvents = Some PollInput"
| "step_of RunCuda = Some RenderStep"
| "step_of (GlTexSubImage2D target level x y w h fmt ty) = Some CopyToTexture"
| "step_of (GlDrawElements mode n ty off) = Some Draw"
| "step_of (GlfwSwapBuffers w) = Some SwapBuffers"
| "step_of ev = None"

text \<open>The steps of a sequence of calls, in order.\<close>

fun steps_of :: "event list \<Rightarrow> step list" where
  "steps_of [] = []"
| "steps_of (ev # evs) = (case step_of ev of None \<Rightarrow> steps_of evs | Some st \<Rightarrow> st # steps_of evs)"

fun is_render_or_title :: "event \<Rightarrow> bool" where
  "is_render_or_title RunCuda = True"
| "is_render_or_title (GlfwSetWindowTitle w title) = True"
| "is_render_or_title ev = False"

fun is_send :: "event \<Rightarrow> bool" where
  "is_send (SendPacket p ip) = True"
| "is_send ev = False"


text \<open>The calls made after a given point of the trace.\<close>

definition calls_since :: "state \<Rightarrow> state \<Rightarrow> event list" where
  "calls_since s0 s = drop (length (trace s0)) (trace s)"

text \<open>Vertex data is read two floats per vertex, index data three indices per
  triangle.\<close>

fun pairs :: "'a list \<Rightarrow> ('a \<times> 'a) list" where
  "pairs (x # y # xs) = (x, y) # pairs xs"
| "pairs xs = []"

fun triples :: "'a list \<Rightarrow> ('a \<times> 'a \<times> 'a) list" where
  "triples (x # y # z # xs) = (x, y, z) # triples xs"
| "triples xs = []"

definition vertex :: "GLushort \<Rightarrow> real \<times> real" where
  "vertex i = pairs vertices ! unat i"

definition edge :: "real \<times> real \<Rightarrow> real \<times> real \<Rightarrow> real \<times> real \<Rightarrow> real" where
  "edge a b p = (fst b - fst a) * (snd p - snd a) - (snd b - snd a) * (fst p - fst a)"

text \<open>A point lies in a triangle (border included) when it is on the same side of the
  three edges.\<close>

definition in_triangle :: "GLushort \<times> GLushort \<times> GLushort \<Rightarrow> real \<times> real \<Rightarrow> bool" where
  "in_triangle t p =
     (case t of (i, j, k) \<Rightarrow>
        let d1 = edge (vertex i) (vertex j) p;
            d2 = edge (vertex j) (vertex k) p;
            d3 = edge (vertex k) (vertex i) p
        in (0 \<le> d1 \<and> 0 \<le> d2 \<and> 0 \<le> d3) \<or> (d1 \<le> 0 \<and> d2 \<le> 0 \<and> d3 \<le> 0))"

subsection \<open>A sample environment\<close>

text \<open>Decimal digits, standing in for \<^verbatim>\<open>convertIntToString\<close> in the sample.\<close>

fun decimal :: "nat \<Rightarrow> string" where
  "decimal n =
     (if n < 10 then [char_of (48 + n)]
      else decimal (n div 10) @ [char_of (48 + n mod 10)])"

declare decimal.simps [simp del]

text \<open>Everything succeeds, the driver hands out the names 1, 2, 3 for the vertex
  buffers, 1 for the texture, 4 for the pixel buffer and 3 for the program, the render
  step counts its calls, and the window is asked to close during the second frame.\<close>

definition sample_env :: env where
  "sample_env =
     \<lparr> glfwInit_ok = True, glfwCreateWindow_result = 1, glewInit_ok = True,
       vertexBufferObjID = (\<lambda>i. of_nat (Suc i)), texture_name = 1, pbo_name = 4,
       createDefaultProgram_result = 3, glGetUniformLocation_result = 0,
       shouldClose = (\<lambda>k. 2 \<le> k), iteration_after = (\<lambda>k. of_nat (Suc k)),
       convertIntToString = (\<lambda>i. decimal (unat i)) \<rparr>"

section \<open>Lemmas about the functions\<close>

subsection \<open>External calls\<close>

text \<open>Every external call appends one entry to the trace and leaves alone every field
  that its definition does not name. The field lemmas below are simplification rules:
  proofs about the functions of the file rewrite with them and never unfold \<open>emit\<close>.\<close>

lemmas api_defs =
  glfwSetErrorCallback_def glfwInit_def glfwCreateWindow_def glfwTerminate_def
  glfwMakeContextCurrent_def glfwSetKeyCallback_def glewInit_def glGenBuffers_def
  glBindBuffer_def glBufferData_def glVertexAttribPointer_def glEnableVertexAttribArray_def
  glGenTextures_def glBindTexture_def glTexParameteri_def glTexImage2D_def
  cudaGLSetGLDevice_def atexit_def cudaGLRegisterBufferObject_def
  cudaGLUnregisterBufferObject_def createDefaultProgram_def glGetUniformLocation_def
  glUniform1i_def glUseProgram_def glActiveTexture_def glDeleteBuffers_def
  glDeleteTextures_def glfwWindowShouldClose_def glfwPollEvents_def glfwSetWindowTitle_def
  glTexSubImage2D_def glClear_def glDrawElements_def glfwSwapBuffers_def
  glfwDestroyWindow_def runCuda_def

lemma length_vertices: "length vertices = 8"
  by (simp add: vertices_def)

lemma length_texcoords: "length texcoords = 8"
  by (simp add: texcoords_def)

lemma length_indices: "length indices = 6"
  by (simp add: indices_def)

lemma emit_fields [simp]:
  "pbo (emit ev s) = pbo s"
  "displayImage (emit ev s) = displayImage s"
  "window (emit ev s) = window s"
  "width (emit ev s) = width s"
  "height (emit ev s) = height s"
  "iteration (emit ev s) = iteration s"
  "glewExperimental (emit ev s) = glewExperimental s"
  "atexit_hooks (emit ev s) = atexit_hooks s"
  "live_buffers (emit ev s) = live_buffers s"
  "live_textures (emit ev s) = live_textures s"
  "live_programs (emit ev s) = live_programs s"
  "cuda_registered (emit ev s) = cuda_registered s"
  "buffer_binding (emit ev s) = buffer_binding s"
  "texture_binding (emit ev s) = texture_binding s"
  "buffer_store (emit ev s) = buffer_store s"
  "texture_store (emit ev s) = texture_store s"
  "uploads (emit ev s) = uploads s"
  "draws (emit ev s) = draws s"
  "checks (emit ev s) = checks s"
  "renders (emit ev s) = renders s"
  "trace (emit ev s) = trace s @ [ev]"
  by (simp_all add: emit_def)

lemma trace_check [simp]:
  "trace (snd (glfwWindowShouldClose e w s)) = trace s @ [GlfwWindowShouldClose w]"
  by (simp add: glfwWindowShouldClose_def)

subsection \<open>The set-up functions and the clean-up\<close>

lemma initVAO_fields [simp]:
  "pbo (initVAO e s) = pbo s"
  "displayImage (initVAO e s) = displayImage s"
  "window (initVAO e s) = window s"
  "width (initVAO e s) = width s"
  "height (initVAO e s) = height s"
  "iteration (initVAO e s) = iteration s"
  "glewExperimental (initVAO e s) = glewExperimental s"
  "atexit_hooks (initVAO e s) = atexit_hooks s"
  "live_buffers (initVAO e s) =
     live_buffers s \<union> {vertexBufferObjID e 0, vertexBufferObjID e 1, vertexBufferObjID e 2}"
  "live_textures (initVAO e s) = live_textures s"
  "live_programs (initVAO e s) = live_programs s"
  "cuda_registered (initVAO e s) = cuda_registered s"
  "buffer_binding (initVAO e s) =
     (buffer_binding s)(GL_ARRAY_BUFFER := vertexBufferObjID e 1,
        GL_ELEMENT_ARRAY_BUFFER := vertexBufferObjID e 2)"
  "texture_binding (initVAO e s) = texture_binding s"
  "texture_store (initVAO e s) = texture_store s"
  "uploads (initVAO e s) = uploads s"
  "draws (initVAO e s) = draws s"
  "checks (initVAO e s) = checks s"
  "renders (initVAO e s) = renders s"
  "trace (initVAO e s) =
     trace s @
       [GlGenBuffers 3,
        GlBindBuffer GL_ARRAY_BUFFER (vertexBufferObjID e 0),
        GlBufferData GL_ARRAY_BUFFER 32 (FloatData vertices) GL_STATIC_DRAW,
        GlVertexAttribPointer 0 2 GL_FLOAT False 0 0,
        GlEnableVertexAttribArray 0,
        GlBindBuffer GL_ARRAY_BUFFER (vertexBufferObjID e 1),
        GlBufferData GL_ARRAY_BUFFER 32 (FloatData texcoords) GL_STATIC_DRAW,
        GlVertexAttribPointer 1 2 GL_FLOAT False 0 0,
        GlEnableVertexAttribArray 1,
        GlBindBuffer GL_ELEMENT_ARRAY_BUFFER (vertexBufferObjID e 2),
        GlBufferData GL_ELEMENT_ARRAY_BUFFER 12 (UShortData indices) GL_STATIC_DRAW]"
  by (simp_all add: initVAO_def Let_def api_defs positionLocation_def texcoordsLocation_def
      sizeof_GLfloat_def sizeof_GLushort_def length_vertices length_texcoords length_indices)

lemma initTextures_fields [simp]:
  "pbo (initTextures e s) = pbo s"
  "displayImage (initTextures e s) = texture_name e"
  "window (initTextures e s) = window s"
  "width (initTextures e s) = width s"
  "height (initTextures e s) = height s"
  "iteration (initTextures e s) = iteration s"
  "glewExperimental (initTextures e s) = glewExperimental s"
  "atexit_hooks (initTextures e s) = atexit_hooks s"
  "live_buffers (initTextures e s) = live_buffers s"
  "live_textures (initTextures e s) = insert (texture_name e) (live_textures s)"
  "live_programs (initTextures e s) = live_programs s"
  "cuda_registered (initTextures e s) = cuda_registered s"
  "buffer_binding (initTextures e s) = buffer_binding s"
  "texture_binding (initTextures e s) = texture_name e"
  "buffer_store (initTextures e s) = buffer_store s"
  "texture_store (initTextures e s) =
     (texture_store s)(texture_name e := Some (GL_RGBA8, sint (width s), sint (height s)))"
  "uploads (initTextures e s) = uploads s"
  "draws (initTextures e s) = draws s"
  "checks (initTextures e s) = checks s"
  "renders (initTextures e s) = renders s"
  "trace (initTextures e s) =
     trace s @
       [GlGenTextures 1,
        GlBindTexture GL_TEXTURE_2D (texture_name e),
        GlTexParameteri GL_TEXTURE_2D GL_TEXTURE_MAG_FILTER GL_NEAREST,
        GlTexParameteri GL_TEXTURE_2D GL_TEXTURE_MIN_FILTER GL_NEAREST,
        GlTexImage2D GL_TEXTURE_2D 0 GL_RGBA8 (width s) (height s) 0 GL_BGRA GL_UNSIGNED_BYTE]"
  by (simp_all add: initTextures_def Let_def api_defs)

lemma initCuda_fields [simp]:
  "pbo (initCuda s) = pbo s"
  "displayImage (initCuda s) = displayImage s"
  "window (initCuda s) = window s"
  "width (initCuda s) = width s"
  "height (initCuda s) = height s"
  "iteration (initCuda s) = iteration s"
  "glewExperimental (initCuda s) = glewExperimental s"
  "atexit_hooks (initCuda s) = CleanupCuda # atexit_hooks s"
  "live_buffers (initCuda s) = live_buffers s"
  "live_textures (initCuda s) = live_textures s"
  "live_programs (initCuda s) = live_programs s"
  "cuda_registered (initCuda s) = cuda_registered s"
  "buffer_binding (initCuda s) = buffer_binding s"
  "texture_binding (initCuda s) = texture_binding s"
  "buffer_store (initCuda s) = buffer_store s"
  "texture_store (initCuda s) = texture_store s"
  "uploads (initCuda s) = uploads s"
  "draws (initCuda s) = draws s"
  "checks (initCuda s) = checks s"
  "renders (initCuda s) = renders s"
  "trace (initCuda s) =
     trace s @ [CudaGLSetGLDevice 0, Atexit CleanupCuda]"
  by (simp_all add: initCuda_def Let_def api_defs)

lemma initPBO_fields [simp]:
  "pbo (initPBO e s) = pbo_name e"
  "displayImage (initPBO e s) = displayImage s"
  "window (initPBO e s) = window s"
  "width (initPBO e s) = width s"
  "height (initPBO e s) = height s"
  "iteration (initPBO e s) = iteration s"
  "glewExperimental (initPBO e s) = glewExperimental s"
  "atexit_hooks (initPBO e s) = atexit_hooks s"
  "live_buffers (initPBO e s) = insert (pbo_name e) (live_buffers s)"
  "live_textures (initPBO e s) = live_textures s"
  "live_programs (initPBO e s) = live_programs s"
  "cuda_registered (initPBO e s) = insert (pbo_name e) (cuda_registered s)"
  "buffer_binding (initPBO e s) =
     (buffer_binding s)(GL_PIXEL_UNPACK_BUFFER := pbo_name e)"
  "texture_binding (initPBO e s) = texture_binding s"
  "buffer_store (initPBO e s) =
     (if pbo_name e = 0 then buffer_store s
      else (buffer_store s)(pbo_name e :=
              Some (sint (size_tex_data (width s) (height s)), NullData)))"
  "texture_store (initPBO e s) = texture_store s"
  "uploads (initPBO e s) = uploads s"
  "draws (initPBO e s) = draws s"
  "checks (initPBO e s) = checks s"
  "renders (initPBO e s) = renders s"
  "trace (initPBO e s) =
     trace s @
       [GlGenBuffers 1,
        GlBindBuffer GL_PIXEL_UNPACK_BUFFER (pbo_name e),
        GlBufferData GL_PIXEL_UNPACK_BUFFER (sint (size_tex_data (width s) (height s)))
          NullData GL_DYNAMIC_COPY,
        CudaGLRegisterBufferObject (pbo_name e)]"
  by (simp_all add: initPBO_def Let_def api_defs)

lemma initShader_fields [simp]:
  "pbo (snd (initShader e s)) = pbo s"
  "displayImage (snd (initShader e s)) = displayImage s"
  "window (snd (initShader e s)) = window s"
  "width (snd (initShader e s)) = width s"
  "height (snd (initShader e s)) = height s"
  "iteration (snd (initShader e s)) = iteration s"
  "glewExperimental (snd (initShader e s)) = glewExperimental s"
  "atexit_hooks (snd (initShader e s)) = atexit_hooks s"
  "live_buffers (snd (initShader e s)) = live_buffers s"
  "live_textures (snd (initShader e s)) = live_textures s"
  "live_programs (snd (initShader e s)) =
     insert (createDefaultProgram_result e) (live_programs s)"
  "cuda_registered (snd (initShader e s)) = cuda_registered s"
  "buffer_binding (snd (initShader e s)) = buffer_binding s"
  "texture_binding (snd (initShader e s)) = texture_binding s"
  "buffer_store (snd (initShader e s)) = buffer_store s"
  "texture_store (snd (initShader e s)) = texture_store s"
  "uploads (snd (initShader e s)) = uploads s"
  "draws (snd (initShader e s)) = draws s"
  "checks (snd (initShader e s)) = checks s"
  "renders (snd (initShader e s)) = renders s"
  "trace (snd (initShader e s)) =
     trace s @
       [CreateDefaultProgram [''Position'', ''Texcoords''] 2,
        GlGetUniformLocation (createDefaultProgram_result e) ''u_image''] @
       (if glGetUniformLocation_result e \<noteq> - 1
        then [GlUniform1i (glGetUniformLocation_result e) 0] else [])"
  by (simp_all add: initShader_def Let_def api_defs)

lemma cleanupCuda_fields [simp]:
  "pbo (cleanupCuda s) = 0"
  "displayImage (cleanupCuda s) = 0"
  "window (cleanupCuda s) = window s"
  "width (cleanupCuda s) = width s"
  "height (cleanupCuda s) = height s"
  "iteration (cleanupCuda s) = iteration s"
  "glewExperimental (cleanupCuda s) = glewExperimental s"
  "atexit_hooks (cleanupCuda s) = atexit_hooks s"
  "live_buffers (cleanupCuda s) =
     (if pbo s \<noteq> 0 then live_buffers s - {pbo s} else live_buffers s)"
  "live_textures (cleanupCuda s) =
     (if displayImage s \<noteq> 0 then live_textures s - {displayImage s} else live_textures s)"
  "live_programs (cleanupCuda s) = live_programs s"
  "cuda_registered (cleanupCuda s) =
     (if pbo s \<noteq> 0 then cuda_registered s - {pbo s} else cuda_registered s)"
  "uploads (cleanupCuda s) = uploads s"
  "draws (cleanupCuda s) = draws s"
  "checks (cleanupCuda s) = checks s"
  "renders (cleanupCuda s) = renders s"
  "trace (cleanupCuda s) =
     trace s @
       (if pbo s \<noteq> 0
        then [CudaGLUnregisterBufferObject (pbo s), GlBindBuffer GL_ARRAY_BUFFER (pbo s),
              GlDeleteBuffers [pbo s]]
        else []) @
       (if displayImage s \<noteq> 0 then [GlDeleteTextures [displayImage s]] else [])"
  by (simp_all add: cleanupCuda_def deletePBO_def deleteTexture_def deref_def assign_def
      Let_def api_defs)

subsection \<open>The four ways through init\<close>

lemma init_glfw_down:
  "\<not> glfwInit_ok e \<Longrightarrow>
   init e s = exit_process EXIT_FAILURE (emit GlfwInit (emit GlfwSetErrorCallback s))"
  by (simp add: init_def Let_def glfwInit_def glfwSetErrorCallback_def)

lemma init_no_window:
  "glfwInit_ok e \<Longrightarrow> glfwCreateWindow_result e = NULL \<Longrightarrow>
   init e s =
     Returned False
       (emit GlfwTerminate
         (emit (GlfwCreateWindow (width s) (height s) ''CIS 565 Path Tracer'')
           (emit GlfwInit (emit GlfwSetErrorCallback s))
          \<lparr>window := NULL\<rparr>))"
  by (simp add: init_def Let_def glfwInit_def glfwSetErrorCallback_def glfwCreateWindow_def
      glfwTerminate_def)

lemma init_no_glew:
  "glfwInit_ok e \<Longrightarrow> glfwCreateWindow_result e \<noteq> NULL \<Longrightarrow> \<not> glewInit_ok e \<Longrightarrow>
   init e s = Returned False (context_made e s)"
  by (simp add: init_def Let_def glfwInit_def glfwSetErrorCallback_def glfwCreateWindow_def
      glfwMakeContextCurrent_def glfwSetKeyCallback_def glewInit_def context_made_def)

lemma init_ok:
  "glfwInit_ok e \<Longrightarrow> glfwCreateWindow_result e \<noteq> NULL \<Longrightarrow> glewInit_ok e \<Longrightarrow>
   init e s =
     Returned True
       (glActiveTexture GL_TEXTURE0
         (glUseProgram (createDefaultProgram_result e)
           (snd (initShader e (initPBO e (initCuda (initTextures e (initVAO e
             (context_made e s)))))))))"
  by (simp add: init_def Let_def glfwInit_def glfwSetErrorCallback_def glfwCreateWindow_def
      glfwMakeContextCurrent_def glfwSetKeyCallback_def glewInit_def context_made_def
      initShader_def createDefaultProgram_def glGetUniformLocation_def split: prod.splits)

lemma init_ok_fields:
  assumes "glfwInit_ok e"
    and "glfwCreateWindow_result e \<noteq> NULL"
    and "glewInit_ok e"
  shows
    "pbo (final_state (init e s)) = pbo_name e"
    "displayImage (final_state (init e s)) = texture_name e"
    "window (final_state (init e s)) = glfwCreateWindow_result e"
    "width (final_state (init e s)) = width s"
    "height (final_state (init e s)) = height s"
    "iteration (final_state (init e s)) = iteration s"
    "glewExperimental (final_state (init e s)) = True"
    "atexit_hooks (final_state (init e s)) = CleanupCuda # atexit_hooks s"
    "live_buffers (final_state (init e s)) =
       insert (pbo_name e) (live_buffers s \<union>
         {vertexBufferObjID e 0, vertexBufferObjID e 1, vertexBufferObjID e 2})"
    "live_textures (final_state (init e s)) = insert (texture_name e) (live_textures s)"
    "live_programs (final_state (init e s)) =
       insert (createDefaultProgram_result e) (live_programs s)"
    "cuda_registered (final_state (init e s)) = insert (pbo_name e) (cuda_registered s)"
    "buffer_binding (final_state (init e s)) =
       (buffer_binding s)(GL_ARRAY_BUFFER := vertexBufferObjID e 1,
          GL_ELEMENT_ARRAY_BUFFER := vertexBufferObjID e 2,
          GL_PIXEL_UNPACK_BUFFER := pbo_name e)"
    "texture_binding (final_state (init e s)) = texture_name e"
    "texture_store (final_state (init e s)) =
       (texture_store s)(texture_name e := Some (GL_RGBA8, sint (width s), sint (height s)))"
    "uploads (final_state (init e s)) = uploads s"
    "draws (final_state (init e s)) = draws s"
    "checks (final_state (init e s)) = checks s"
    "renders (final_state (init e s)) = renders s"
    "trace (final_state (init e s)) = trace s @ init_calls e s"
  using assms by (simp_all add: init_ok context_made_def init_calls_def
      glActiveTexture_def glUseProgram_def)

lemma init_no_window_fields:
  assumes "glfwInit_ok e"
    and "glfwCreateWindow_result e = NULL"
  shows
    "pbo (final_state (init e s)) = pbo s"
    "displayImage (final_state (init e s)) = displayImage s"
    "window (final_state (init e s)) = NULL"
    "width (final_state (init e s)) = width s"
    "height (final_state (init e s)) = height s"
    "iteration (final_state (init e s)) = iteration s"
    "glewExperimental (final_state (init e s)) = glewExperimental s"
    "atexit_hooks (final_state (init e s)) = atexit_hooks s"
    "live_buffers (final_state (init e s)) = live_buffers s"
    "live_textures (final_state (init e s)) = live_textures s"
    "live_programs (final_state (init e s)) = live_programs s"
    "cuda_registered (final_state (init e s)) = cuda_registered s"
    "buffer_binding (final_state (init e s)) = buffer_binding s"
    "texture_binding (final_state (init e s)) = texture_binding s"
    "buffer_store (final_state (init e s)) = buffer_store s"
    "texture_store (final_state (init e s)) = texture_store s"
    "uploads (final_state (init e s)) = uploads s"
    "draws (final_state (init e s)) = draws s"
    "checks (final_state (init e s)) = checks s"
    "renders (final_state (init e s)) = renders s"
    "trace (final_state (init e s)) =
       trace s @
         [GlfwSetErrorCallback, GlfwInit,
          GlfwCreateWindow (width s) (height s) ''CIS 565 Path Tracer'', GlfwTerminate]"
  using assms by (simp_all add: init_no_window)

lemma init_no_glew_fields:
  assumes "glfwInit_ok e"
    and "glfwCreateWindow_result e \<noteq> NULL"
    and "\<not> glewInit_ok e"
  shows
    "pbo (final_state (init e s)) = pbo s"
    "displayImage (final_state (init e s)) = displayImage s"
    "window (final_state (init e s)) = glfwCreateWindow_result e"
    "width (final_state (init e s)) = width s"
    "height (final_state (init e s)) = height s"
    "iteration (final_state (init e s)) = iteration s"
    "glewExperimental (final_state (init e s)) = True"
    "atexit_hooks (final_state (init e s)) = atexit_hooks s"
    "live_buffers (final_state (init e s)) = live_buffers s"
    "live_textures (final_state (init e s)) = live_textures s"
    "live_programs (final_state (init e s)) = live_programs s"
    "cuda_registered (final_state (init e s)) = cuda_registered s"
    "buffer_binding (final_state (init e s)) = buffer_binding s"
    "texture_binding (final_state (init e s)) = texture_binding s"
    "buffer_store (final_state (init e s)) = buffer_store s"
    "texture_store (final_state (init e s)) = texture_store s"
    "uploads (final_state (init e s)) = uploads s"
    "draws (final_state (init e s)) = draws s"
    "checks (final_state (init e s)) = checks s"
    "renders (final_state (init e s)) = renders s"
    "trace (final_state (init e s)) =
       trace s @
         [GlfwSetErrorCallback, GlfwInit,
          GlfwCreateWindow (width s) (height s) ''CIS 565 Path Tracer'',
          GlfwMakeContextCurrent (glfwCreateWindow_result e),
          GlfwSetKeyCallback (glfwCreateWindow_result e), GlewInit]"
  using assms by (simp_all add: init_no_glew context_made_def)

lemma init_ok_index_buffer:
  assumes "glfwInit_ok e" and "glfwCreateWindow_result e \<noteq> NULL" and "glewInit_ok e"
    and "vertexBufferObjID e 2 \<noteq> 0" and "pbo_name e \<noteq> vertexBufferObjID e 2"
  shows "buffer_store (final_state (init e s)) (vertexBufferObjID e 2) = Some (12, UShortData indices)"
  using assms
  by (simp add: init_ok glActiveTexture_def glUseProgram_def initVAO_def Let_def
      glBufferData_def glBindBuffer_def glGenBuffers_def glVertexAttribPointer_def
      glEnableVertexAttribArray_def sizeof_GLushort_def length_indices)

lemma init_ok_pixel_buffer:
  assumes "glfwInit_ok e" and "glfwCreateWindow_result e \<noteq> NULL" and "glewInit_ok e"
    and "pbo_name e \<noteq> 0"
  shows "buffer_store (final_state (init e s)) (pbo_name e) =
           Some (sint (size_tex_data (width s) (height s)), NullData)"
  using assms
  by (simp add: init_ok glActiveTexture_def glUseProgram_def context_made_def)

lemma init_returned_value:
  "returned_value (init e s) =
     (if glfwInit_ok e then Some (glfwCreateWindow_result e \<noteq> NULL \<and> glewInit_ok e) else None)"
  by (simp add: init_def exit_process_def Let_def glfwInit_def glfwCreateWindow_def glewInit_def
      split: prod.splits)

lemma init_exit_status:
  "exit_status (init e s) = (if glfwInit_ok e then None else Some EXIT_FAILURE)"
  by (simp add: init_def exit_process_def Let_def glfwInit_def glfwCreateWindow_def glewInit_def
      split: prod.splits)

lemma init_returns_fields:
  assumes "glfwInit_ok e"
  shows "checks (final_state (init e s)) = checks s"
    "renders (final_state (init e s)) = renders s"
    "draws (final_state (init e s)) = draws s"
    "uploads (final_state (init e s)) = uploads s"
    "width (final_state (init e s)) = width s"
    "height (final_state (init e s)) = height s"
    "window (final_state (init e s)) = glfwCreateWindow_result e"
proof -
  consider "glfwCreateWindow_result e = NULL"
    | "glfwCreateWindow_result e \<noteq> NULL" "\<not> glewInit_ok e"
    | "glfwCreateWindow_result e \<noteq> NULL" "glewInit_ok e"
    by blast
  then have "checks (final_state (init e s)) = checks s
    \<and> renders (final_state (init e s)) = renders s
    \<and> draws (final_state (init e s)) = draws s
    \<and> uploads (final_state (init e s)) = uploads s
    \<and> width (final_state (init e s)) = width s
    \<and> height (final_state (init e s)) = height s
    \<and> window (final_state (init e s)) = glfwCreateWindow_result e"
    using assms
    by cases (simp_all add: init_no_window_fields init_no_glew_fields init_ok_fields)
  then show "checks (final_state (init e s)) = checks s"
    "renders (final_state (init e s)) = renders s"
    "draws (final_state (init e s)) = draws s"
    "uploads (final_state (init e s)) = uploads s"
    "width (final_state (init e s)) = width s"
    "height (final_state (init e s)) = height s"
    "window (final_state (init e s)) = glfwCreateWindow_result e"
    by simp_all
qed

subsection \<open>The size computed by initPBO\<close>

text \<open>The product in \<^verbatim>\<open>size_t\<close> by \<^verbatim>\<open>sizeof(GLubyte)\<close> and the conversion back to
  \<^verbatim>\<open>int\<close> change nothing; the two products in \<^verbatim>\<open>int\<close> are exact as long as the result
  fits 32 bits.\<close>

lemma ucast_scast_int: "ucast (scast (x :: cint) :: size_t) = x"
  by (rule bit_word_eqI) (auto simp add: bit_ucast_iff bit_signed_iff)

lemma size_tex_data_eq: "size_tex_data w h = w * h * 4"
  by (simp add: size_tex_data_def num_values_def num_texels_def sizeof_GLubyte_def
      ucast_scast_int)

lemma sint_mult_exact:
  fixes a b :: cint
  assumes "- (2 ^ 31) \<le> sint a * sint b" and "sint a * sint b < 2 ^ 31"
  shows "sint (a * b) = sint a * sint b"
  using assms by (simp add: sint_word_ariths signed_take_bit_int_eq_self)

lemma sint_size_tex_data:
  assumes lo: "- (2 ^ 31) \<le> sint w * sint h * 4" and hi: "sint w * sint h * 4 < 2 ^ 31"
  shows "sint (size_tex_data w h) = sint w * sint h * 4"
proof -
  have 1: "sint (w * h) = sint w * sint h"
    using lo hi by (intro sint_mult_exact) linarith+
  have 2: "sint (w * h * 4) = sint (w * h) * sint (4 :: cint)"
    using lo hi 1 by (intro sint_mult_exact) simp_all
  show ?thesis by (simp add: size_tex_data_eq 1 2)
qed

subsection \<open>One pass through the loop, and several\<close>

lemma frame_fields [simp]:
  "pbo (frame e s) = pbo s"
  "displayImage (frame e s) = displayImage s"
  "window (frame e s) = window s"
  "width (frame e s) = width s"
  "height (frame e s) = height s"
  "iteration (frame e s) = iteration_after e (renders s)"
  "glewExperimental (frame e s) = glewExperimental s"
  "atexit_hooks (frame e s) = atexit_hooks s"
  "live_buffers (frame e s) = live_buffers s"
  "live_textures (frame e s) = live_textures s"
  "live_programs (frame e s) = live_programs s"
  "cuda_registered (frame e s) = cuda_registered s"
  "buffer_binding (frame e s) =
     (buffer_binding s)(GL_PIXEL_UNPACK_BUFFER := pbo s)"
  "texture_binding (frame e s) = displayImage s"
  "buffer_store (frame e s) = buffer_store s"
  "texture_store (frame e s) = texture_store s"
  "uploads (frame e s) = uploads s @ [(pbo s, displayImage s)]"
  "draws (frame e s) = draws s @ [fetch_indices s 6 0]"
  "checks (frame e s) = checks s"
  "renders (frame e s) = Suc (renders s)"
  "trace (frame e s) =
     trace s @
       [GlfwPollEvents, RunCuda,
        GlfwSetWindowTitle (window s) (window_title e (iteration_after e (renders s))),
        GlBindBuffer GL_PIXEL_UNPACK_BUFFER (pbo s),
        GlBindTexture GL_TEXTURE_2D (displayImage s),
        GlTexSubImage2D GL_TEXTURE_2D 0 0 0 (width s) (height s) GL_RGBA GL_UNSIGNED_BYTE,
        GlClear GL_COLOR_BUFFER_BIT,
        GlDrawElements GL_TRIANGLES 6 GL_UNSIGNED_SHORT 0,
        GlfwSwapBuffers (window s)]"
  by (simp_all add: frame_def Let_def api_defs fetch_indices_def)

lemma pass_fields [simp]:
  shows
    "pbo (pass e s) = pbo s"
    "displayImage (pass e s) = displayImage s"
    "window (pass e s) = window s"
    "width (pass e s) = width s"
    "height (pass e s) = height s"
    "iteration (pass e s) = iteration_after e (renders s)"
    "glewExperimental (pass e s) = glewExperimental s"
    "atexit_hooks (pass e s) = atexit_hooks s"
    "live_buffers (pass e s) = live_buffers s"
    "live_textures (pass e s) = live_textures s"
    "live_programs (pass e s) = live_programs s"
    "cuda_registered (pass e s) = cuda_registered s"
    "buffer_binding (pass e s) = (buffer_binding s)(GL_PIXEL_UNPACK_BUFFER := pbo s)"
    "texture_binding (pass e s) = displayImage s"
    "buffer_store (pass e s) = buffer_store s"
    "texture_store (pass e s) = texture_store s"
    "uploads (pass e s) = uploads s @ [(pbo s, displayImage s)]"
    "draws (pass e s) = draws s @ [fetch_indices s 6 0]"
    "checks (pass e s) = Suc (checks s)"
    "renders (pass e s) = Suc (renders s)"
    "trace (pass e s) = trace s @ pass_calls e s 0"
  by (simp_all add: pass_def pass_calls_def glfwWindowShouldClose_def fetch_indices_def)

lemma pass_calls_pass [simp]: "pass_calls e (pass e s) k = pass_calls e s (Suc k)"
  by (simp add: pass_calls_def)

lemma fetch_indices_pass [simp]: "fetch_indices (pass e s) n off = fetch_indices s n off"
  by (simp add: fetch_indices_def)

lemma passes_shift: "passes n e (pass e s) = pass e (passes n e s)"
  by (induction n) simp_all

lemma passes_fields [simp]:
  "pbo (passes n e s) = pbo s"
  "displayImage (passes n e s) = displayImage s"
  "window (passes n e s) = window s"
  "width (passes n e s) = width s"
  "height (passes n e s) = height s"
  "atexit_hooks (passes n e s) = atexit_hooks s"
  "live_buffers (passes n e s) = live_buffers s"
  "live_textures (passes n e s) = live_textures s"
  "live_programs (passes n e s) = live_programs s"
  "buffer_store (passes n e s) = buffer_store s"
  "checks (passes n e s) = checks s + n"
  "renders (passes n e s) = renders s + n"
  by (induction n) simp_all

lemma pass_calls_passes [simp]: "pass_calls e (passes n e s) k = pass_calls e s (n + k)"
  by (simp add: pass_calls_def add.assoc)

lemma fetch_indices_passes [simp]: "fetch_indices (passes n e s) m off = fetch_indices s m off"
  by (induction n) simp_all

lemma trace_passes: "trace (passes n e s) = trace s @ concat (map (pass_calls e s) [0..<n])"
  by (induction n) simp_all

lemma draws_passes: "draws (passes n e s) = draws s @ replicate n (fetch_indices s 6 0)"
  by (induction n) (simp_all add: replicate_append_same)

lemma uploads_passes: "uploads (passes n e s) = uploads s @ replicate n (pbo s, displayImage s)"
  by (induction n) (simp_all add: replicate_append_same)

lemma renderLoop_open:
  "\<not> shouldClose e (checks s) \<Longrightarrow> renderLoop (Suc fuel) e s = renderLoop fuel e (pass e s)"
  by (simp add: glfwWindowShouldClose_def pass_def)

lemma renderLoop_closed:
  "shouldClose e (checks s) \<Longrightarrow>
   renderLoop (Suc fuel) e s = Returned () (snd (glfwWindowShouldClose e (window s) s))"
  by (simp add: glfwWindowShouldClose_def)

subsection \<open>When the loop ends\<close>

text \<open>The loop leaves at the first evaluation of its condition that finds the flag
  set, and not before; while it runs its trace only grows.\<close>

lemma renderLoop_closes:
  "\<forall>j<n. \<not> shouldClose e (checks s + j) \<Longrightarrow> shouldClose e (checks s + n) \<Longrightarrow> n < fuel \<Longrightarrow>
   renderLoop fuel e s =
     Returned () (snd (glfwWindowShouldClose e (window s) (passes n e s)))"
proof (induction n arbitrary: s fuel)
  case 0
  then obtain f where "fuel = Suc f" by (cases fuel) auto
  with 0 show ?case by (simp add: glfwWindowShouldClose_def)
next
  case (Suc n)
  then obtain f where f: "fuel = Suc f" "n < f" by (cases fuel) auto
  from Suc.prems(1) have now: "\<not> shouldClose e (checks s)" by force
  have later: "\<forall>j<n. \<not> shouldClose e (checks (pass e s) + j)"
    using Suc.prems(1) by auto
  have last: "shouldClose e (checks (pass e s) + n)"
    using Suc.prems(2) by simp
  have "renderLoop fuel e s = renderLoop f e (pass e s)"
    using now f by (simp add: glfwWindowShouldClose_def pass_def)
  also have "\<dots> = Returned () (snd (glfwWindowShouldClose e (window (pass e s)) (passes n e (pass e s))))"
    by (rule Suc.IH [OF later last f(2)])
  finally show ?case by (simp add: passes_shift)
qed

lemma renderLoop_runs:
  "\<forall>j<fuel. \<not> shouldClose e (checks s + j) \<Longrightarrow> renderLoop fuel e s = OutOfFuel (passes fuel e s)"
proof (induction fuel arbitrary: s)
  case 0
  show ?case by simp
next
  case (Suc fuel)
  from Suc.prems have now: "\<not> shouldClose e (checks s)" by force
  have later: "\<forall>j<fuel. \<not> shouldClose e (checks (pass e s) + j)"
    using Suc.prems by auto
  have "renderLoop (Suc fuel) e s = renderLoop fuel e (pass e s)"
    using now by (simp add: glfwWindowShouldClose_def pass_def)
  also have "\<dots> = OutOfFuel (passes fuel e (pass e s))"
    by (rule Suc.IH [OF later])
  finally show ?case by (simp add: passes_shift)
qed

lemma renderLoop_grows: "\<exists>rest. trace (final_state (renderLoop fuel e s)) = trace s @ rest"
proof (induction fuel arbitrary: s)
  case 0
  show ?case by simp
next
  case (Suc fuel)
  show ?case
  proof (cases "shouldClose e (checks s)")
    case True
    then show ?thesis by (simp add: renderLoop_closed del: renderLoop.simps)
  next
    case False
    obtain rest where "trace (final_state (renderLoop fuel e (pass e s))) = trace (pass e s) @ rest"
      using Suc.IH by blast
    with False show ?thesis by (simp add: renderLoop_open del: renderLoop.simps)
  qed
qed

lemma renderLoop_first_check:
  "\<exists>rest. trace (final_state (renderLoop (Suc fuel) e s)) =
     trace s @ GlfwWindowShouldClose (window s) # rest"
proof (cases "shouldClose e (checks s)")
  case True
  then show ?thesis by (simp add: renderLoop_closed del: renderLoop.simps)
next
  case False
  obtain rest where "trace (final_state (renderLoop fuel e (pass e s))) = trace (pass e s) @ rest"
    using renderLoop_grows by blast
  with False show ?thesis by (simp add: renderLoop_open pass_calls_def del: renderLoop.simps)
qed

lemma renderLoop_first_pass:
  assumes "\<not> shouldClose e (checks s)"
  shows "\<exists>rest. trace (final_state (renderLoop (Suc fuel) e s)) = trace s @ pass_calls e s 0 @ rest"
proof -
  obtain rest where "trace (final_state (renderLoop fuel e (pass e s))) = trace (pass e s) @ rest"
    using renderLoop_grows by blast
  with assms show ?thesis by (simp add: renderLoop_open del: renderLoop.simps)
qed

subsection \<open>mainLoop\<close>

text \<open>What \<^verbatim>\<open>mainLoop\<close> does when the window is asked to close at the \<open>n\<close>-th evaluation
  of the loop condition and not before.\<close>

lemma mainLoop_after_init:
  "returned_value (init e s) = Some ok \<Longrightarrow>
   mainLoop pMgr client_ip fuel e s =
     (case renderLoop fuel e (final_state (init e s)) of
        Returned u s' \<Rightarrow> Returned () (glfwTerminate (glfwDestroyWindow (window s') s'))
      | Exited c s' \<Rightarrow> Exited c s'
      | OutOfFuel s' \<Rightarrow> OutOfFuel s')"
  by (cases "init e s") (simp_all add: mainLoop_def Let_def split: outcome.splits)

lemma trace_final_mainLoop:
  "trace (final_state (mainLoop pMgr client_ip fuel e s)) =
     (case init e s of
        Returned ok s1 \<Rightarrow>
          (case renderLoop fuel e s1 of
             Returned u s2 \<Rightarrow> trace s2 @ [GlfwDestroyWindow (window s2), GlfwTerminate]
           | Exited c s2 \<Rightarrow> trace s2
           | OutOfFuel s2 \<Rightarrow> trace s2)
      | Exited c s1 \<Rightarrow> trace s1
      | OutOfFuel s1 \<Rightarrow> trace s1)"
  by (simp add: mainLoop_def Let_def glfwDestroyWindow_def glfwTerminate_def
      split: outcome.splits)

lemma mainLoop_grows:
  assumes "returned_value (init e s) = Some ok"
  shows "\<exists>rest. trace (final_state (mainLoop pMgr client_ip fuel e s)) =
     trace (final_state (renderLoop fuel e (final_state (init e s)))) @ rest"
  using assms
  by (cases "init e s"; cases "renderLoop fuel e (final_state (init e s))")
    (simp_all add: trace_final_mainLoop)

lemma mainLoop_closes:
  assumes "glfwInit_ok e"
    and "\<forall>j<n. \<not> shouldClose e (checks s + j)"
    and "shouldClose e (checks s + n)"
    and "n < fuel"
  shows "mainLoop pMgr client_ip fuel e s =
     Returned ()
       (glfwTerminate (glfwDestroyWindow (glfwCreateWindow_result e)
         (snd (glfwWindowShouldClose e (glfwCreateWindow_result e)
            (passes n e (final_state (init e s)))))))"
proof -
  let ?s1 = "final_state (init e s)"
  have ret: "returned_value (init e s) = Some (glfwCreateWindow_result e \<noteq> NULL \<and> glewInit_ok e)"
    using assms(1) by (simp add: init_returned_value)
  have loop: "renderLoop fuel e ?s1 =
      Returned () (snd (glfwWindowShouldClose e (window ?s1) (passes n e ?s1)))"
    using assms by (intro renderLoop_closes) (simp_all add: init_returns_fields)
  show ?thesis
    using assms(1)
    by (simp add: mainLoop_after_init [OF ret] loop init_returns_fields glfwWindowShouldClose_def)
qed

lemma trace_mainLoop_closes:
  assumes "glfwInit_ok e"
    and "\<forall>j<n. \<not> shouldClose e (checks s + j)"
    and "shouldClose e (checks s + n)"
    and "n < fuel"
  shows "trace (final_state (mainLoop pMgr client_ip fuel e s)) =
     trace (final_state (init e s)) @
     concat (map (pass_calls e (final_state (init e s))) [0..<n]) @
     [GlfwWindowShouldClose (glfwCreateWindow_result e),
      GlfwDestroyWindow (glfwCreateWindow_result e), GlfwTerminate]"
  by (simp add: mainLoop_closes [OF assms] glfwTerminate_def glfwDestroyWindow_def
      glfwWindowShouldClose_def trace_passes)





text \<open>While the flag is not found set the loop goes on: no amount of fuel lets
  \<^verbatim>\<open>mainLoop\<close> return.\<close>

lemma mainLoop_never_closes:
  assumes "glfwInit_ok e" and "\<forall>j<fuel. \<not> shouldClose e (checks s + j)"
  shows "mainLoop pMgr client_ip fuel e s = OutOfFuel (passes fuel e (final_state (init e s)))"
proof -
  have ret: "returned_value (init e s) = Some (glfwCreateWindow_result e \<noteq> NULL \<and> glewInit_ok e)"
    using assms(1) by (simp add: init_returned_value)
  have "renderLoop fuel e (final_state (init e s)) = OutOfFuel (passes fuel e (final_state (init e s)))"
    using assms by (intro renderLoop_runs) (simp add: init_returns_fields)
  then show ?thesis by (simp add: mainLoop_after_init [OF ret])
qed

subsection \<open>Steps, titles and sends in a trace\<close>

lemma steps_of_append [simp]: "steps_of (xs @ ys) = steps_of xs @ steps_of ys"
  by (induction xs) (simp_all split: option.splits)

lemma steps_of_pass_calls [simp]:
  "steps_of (pass_calls e s k) = [PollInput, RenderStep, CopyToTexture, Draw, SwapBuffers]"
  by (simp add: pass_calls_def)

lemma concat_replicate_snoc: "concat (replicate n xs) @ xs = xs @ concat (replicate n xs)"
  by (induction n) simp_all

lemma steps_of_passes:
  "steps_of (concat (map (pass_calls e s) [0..<n])) =
     concat (replicate n [PollInput, RenderStep, CopyToTexture, Draw, SwapBuffers])"
  by (induction n) (simp_all add: concat_replicate_snoc)

lemma titles_of_pass_calls:
  "filter is_render_or_title (pass_calls e s k) =
     [RunCuda, GlfwSetWindowTitle (window s) (window_title e (iteration_after e (renders s + k)))]"
  by (simp add: pass_calls_def)

lemma no_send_cleanupCuda [simp]:
  "filter is_send (trace (cleanupCuda s)) = filter is_send (trace s)"
  by simp

lemma no_send_run_atexit [simp]:
  "filter is_send (trace (run_atexit hs s)) = filter is_send (trace s)"
proof (induction hs arbitrary: s)
  case Nil
  show ?case by simp
next
  case (Cons h hs)
  then show ?case by (cases h) simp
qed

lemma no_send_init [simp]:
  "filter is_send (trace (final_state (init e s))) = filter is_send (trace s)"
proof -
  consider "\<not> glfwInit_ok e"
    | "glfwInit_ok e" "glfwCreateWindow_result e = NULL"
    | "glfwInit_ok e" "glfwCreateWindow_result e \<noteq> NULL" "\<not> glewInit_ok e"
    | "glfwInit_ok e" "glfwCreateWindow_result e \<noteq> NULL" "glewInit_ok e"
    by blast
  then show ?thesis
  proof cases
    case 1
    then show ?thesis by (simp add: init_glfw_down exit_process_def)
  next
    case 2
    then show ?thesis by (simp add: init_no_window_fields)
  next
    case 3
    then show ?thesis by (simp add: init_no_glew_fields)
  next
    case 4
    then show ?thesis by (simp add: init_ok_fields init_calls_def)
  qed
qed

lemma no_send_pass_calls [simp]: "filter is_send (pass_calls e s k) = []"
  by (simp add: pass_calls_def)

lemma no_send_renderLoop [simp]:
  "filter is_send (trace (final_state (renderLoop fuel e s))) = filter is_send (trace s)"
proof (induction fuel arbitrary: s)
  case 0
  show ?case by simp
next
  case (Suc fuel)
  show ?case
  proof (cases "shouldClose e (checks s)")
    case True
    then show ?thesis by (simp add: renderLoop_closed del: renderLoop.simps)
  next
    case False
    then show ?thesis by (simp add: renderLoop_open Suc.IH del: renderLoop.simps)
  qed
qed

subsection \<open>The quad\<close>

lemma vertex_values:
  "vertex 0 = (-1, -1)" "vertex 1 = (1, -1)" "vertex 2 = (1, 1)" "vertex 3 = (-1, 1)"
  by (simp_all add: vertex_def vertices_def)

lemma quad_covered:
  assumes "- 1 \<le> x" and "x \<le> 1" and "- 1 \<le> y" and "y \<le> 1"
  shows "in_triangle (0, 1, 3) (x, y) \<or> in_triangle (3, 1, 2) (x, y)"
  using assms by (simp add: in_triangle_def edge_def vertex_values) linarith

lemma fetch_indices_after_init:
  assumes "glfwInit_ok e" and "glfwCreateWindow_result e \<noteq> NULL" and "glewInit_ok e"
    and "vertexBufferObjID e 2 \<noteq> 0" and "pbo_name e \<noteq> vertexBufferObjID e 2"
  shows "fetch_indices (final_state (init e s)) 6 0 = indices"
  using assms
  by (simp add: fetch_indices_def init_ok_fields init_ok_index_buffer length_indices)

subsection \<open>The sample environment\<close>

lemma upt_0_2: "[0..<2] = [0, Suc 0]"
  by (simp add: numeral_2_eq_2)

lemma sample_env_answers:
  "glfwInit_ok sample_env" "glewInit_ok sample_env"
  "glfwCreateWindow_result sample_env = 1"
  "\<not> shouldClose sample_env 0" "\<not> shouldClose sample_env (Suc 0)" "shouldClose sample_env 2"
  "vertexBufferObjID sample_env 2 = 3"
  "texture_name sample_env = 1" "pbo_name sample_env = 4"
  "createDefaultProgram_result sample_env = 3"
  by (simp_all add: sample_env_def)

lemma sample_env_first_closes_at_2:
  "\<forall>j<2. \<not> shouldClose sample_env (checks (initial_state w h it) + j)"
  "shouldClose sample_env (checks (initial_state w h it) + 2)"
  by (simp_all add: sample_env_def initial_state_def)

lemma sample_env_titles:
  "convertIntToString sample_env (iteration_after sample_env 0) = ''1''"
  "convertIntToString sample_env (iteration_after sample_env (Suc 0)) = ''2''"
  by (simp_all add: sample_env_def) code_simp+

lemma initial_state_counters:
  "checks (initial_state w h it) = 0" "renders (initial_state w h it) = 0"
  by (simp_all add: initial_state_def)

section \<open>The claims\<close>

subsection \<open>C1: the failure points of init\<close>

text \<open>
  Claim C1, as amended. \<^verbatim>\<open>init\<close> has three failure points, each tried once.
  When \<^verbatim>\<open>glfwInit\<close> fails the process exits at once with \<open>EXIT_FAILURE\<close> and \<^verbatim>\<open>init\<close>
  does not return. Otherwise, when no window can be created \<^verbatim>\<open>init\<close> calls
  \<^verbatim>\<open>glfwTerminate\<close> and returns false; otherwise, when \<^verbatim>\<open>glewInit\<close> fails it returns
  false at once; otherwise it makes the calls of \<open>init_calls\<close> and returns true.
\<close>

theorem init_failure_points:
  "(\<not> glfwInit_ok e \<longrightarrow>
      returned_value (init e s) = None \<and> exit_status (init e s) = Some EXIT_FAILURE
      \<and> (atexit_hooks s = [] \<longrightarrow>
           trace (final_state (init e s)) =
             trace s @ [GlfwSetErrorCallback, GlfwInit, ProcessExit EXIT_FAILURE]))
   \<and> (glfwInit_ok e \<and> glfwCreateWindow_result e = NULL \<longrightarrow>
      returned_value (init e s) = Some False \<and> exit_status (init e s) = None
      \<and> trace (final_state (init e s)) =
          trace s @ [GlfwSetErrorCallback, GlfwInit,
            GlfwCreateWindow (width s) (height s) ''CIS 565 Path Tracer'', GlfwTerminate])
   \<and> (glfwInit_ok e \<and> glfwCreateWindow_result e \<noteq> NULL \<and> \<not> glewInit_ok e \<longrightarrow>
      returned_value (init e s) = Some False \<and> exit_status (init e s) = None
      \<and> trace (final_state (init e s)) =
          trace s @ [GlfwSetErrorCallback, GlfwInit,
            GlfwCreateWindow (width s) (height s) ''CIS 565 Path Tracer'',
            GlfwMakeContextCurrent (glfwCreateWindow_result e),
            GlfwSetKeyCallback (glfwCreateWindow_result e), GlewInit])
   \<and> (glfwInit_ok e \<and> glfwCreateWindow_result e \<noteq> NULL \<and> glewInit_ok e \<longrightarrow>
      returned_value (init e s) = Some True \<and> exit_status (init e s) = None
      \<and> trace (final_state (init e s)) = trace s @ init_calls e s)"
  by (simp add: init_returned_value init_exit_status init_no_window_fields init_no_glew_fields
      init_ok_fields init_glfw_down exit_process_def)

theorem init_failure_points_witness:
  "exit_status (init (sample_env\<lparr>glfwInit_ok := False\<rparr>) (initial_state 800 600 0)) = Some EXIT_FAILURE
   \<and> returned_value (init (sample_env\<lparr>glfwCreateWindow_result := NULL\<rparr>) (initial_state 800 600 0)) = Some False
   \<and> returned_value (init (sample_env\<lparr>glewInit_ok := False\<rparr>) (initial_state 800 600 0)) = Some False
   \<and> returned_value (init sample_env (initial_state 800 600 0)) = Some True"
  using init_failure_points [of "sample_env\<lparr>glfwInit_ok := False\<rparr>" "initial_state 800 600 0"]
    init_failure_points [of "sample_env\<lparr>glfwCreateWindow_result := NULL\<rparr>" "initial_state 800 600 0"]
    init_failure_points [of "sample_env\<lparr>glewInit_ok := False\<rparr>" "initial_state 800 600 0"]
    init_failure_points [of sample_env "initial_state 800 600 0"]
  by (simp add: sample_env_def NULL_def)

text \<open>The claim as stated fails where \<^verbatim>\<open>glfwInit\<close> fails: neither the window nor the
  extension loader has failed, and \<^verbatim>\<open>init\<close> does not return true; the process exits.\<close>

theorem init_third_failure_point_counterexample:
  "glfwCreateWindow_result (sample_env\<lparr>glfwInit_ok := False\<rparr>) \<noteq> NULL
   \<and> glewInit_ok (sample_env\<lparr>glfwInit_ok := False\<rparr>)
   \<and> returned_value (init (sample_env\<lparr>glfwInit_ok := False\<rparr>) (initial_state 800 600 0)) = None
   \<and> exit_status (init (sample_env\<lparr>glfwInit_ok := False\<rparr>) (initial_state 800 600 0)) = Some EXIT_FAILURE"
  by (simp add: init_returned_value init_exit_status sample_env_def NULL_def)

subsection \<open>C2: the order of the steps of a frame, and when the loop ends\<close>

text \<open>
  Claim C2. Let \<^verbatim>\<open>glfwInit\<close> succeed, so that \<^verbatim>\<open>init\<close> returns, and let the \<open>n\<close>-th
  evaluation of the loop condition (counted from 0) be the first that finds the
  should-close flag set. Then \<^verbatim>\<open>mainLoop\<close> returns; after the calls of \<^verbatim>\<open>init\<close> its calls
  are those of \<open>n\<close> passes through the loop, one more evaluation of the condition, and
  the destruction of the window; and the steps among these calls are \<open>n\<close> times poll
  input, render step, copy to the texture, draw, swap buffers, in this order. The render
  step has run \<open>n\<close> times and the condition has been evaluated \<open>n + 1\<close> times: the body
  does not run again once the flag was found set.
\<close>

theorem mainLoop_frame_order:
  assumes "glfwInit_ok e"
    and "\<forall>j<n. \<not> shouldClose e (checks s + j)"
    and "shouldClose e (checks s + n)"
    and "n < fuel"
  shows "returned_value (mainLoop pMgr client_ip fuel e s) = Some ()
     \<and> trace (final_state (mainLoop pMgr client_ip fuel e s)) =
         trace (final_state (init e s)) @
         concat (map (pass_calls e (final_state (init e s))) [0..<n]) @
         [GlfwWindowShouldClose (glfwCreateWindow_result e),
          GlfwDestroyWindow (glfwCreateWindow_result e), GlfwTerminate]
     \<and> steps_of (calls_since (final_state (init e s))
           (final_state (mainLoop pMgr client_ip fuel e s))) =
         concat (replicate n [PollInput, RenderStep, CopyToTexture, Draw, SwapBuffers])
     \<and> renders (final_state (mainLoop pMgr client_ip fuel e s)) = renders s + n
     \<and> checks (final_state (mainLoop pMgr client_ip fuel e s)) = checks s + Suc n"
proof -
  have 1: "returned_value (mainLoop pMgr client_ip fuel e s) = Some ()"
    by (simp add: mainLoop_closes [OF assms])
  note 2 = trace_mainLoop_closes [OF assms, of pMgr client_ip]
  have 3: "steps_of (calls_since (final_state (init e s))
           (final_state (mainLoop pMgr client_ip fuel e s))) =
         concat (replicate n [PollInput, RenderStep, CopyToTexture, Draw, SwapBuffers])"
    by (simp add: calls_since_def 2 steps_of_passes)
  have 4: "renders (final_state (mainLoop pMgr client_ip fuel e s)) = renders s + n"
    "checks (final_state (mainLoop pMgr client_ip fuel e s)) = checks s + Suc n"
    using assms(1)
    by (simp_all add: mainLoop_closes [OF assms] glfwTerminate_def glfwDestroyWindow_def
        glfwWindowShouldClose_def init_returns_fields)
  from 1 2 3 4 show ?thesis by simp
qed

theorem mainLoop_frame_order_witness:
  "glfwInit_ok sample_env
   \<and> \<not> shouldClose sample_env 0 \<and> \<not> shouldClose sample_env 1 \<and> shouldClose sample_env 2
   \<and> returned_value (mainLoop 0 ''10.0.0.2'' 3 sample_env (initial_state 800 600 0)) = Some ()
   \<and> steps_of (calls_since (final_state (init sample_env (initial_state 800 600 0)))
         (final_state (mainLoop 0 ''10.0.0.2'' 3 sample_env (initial_state 800 600 0)))) =
       [PollInput, RenderStep, CopyToTexture, Draw, SwapBuffers,
        PollInput, RenderStep, CopyToTexture, Draw, SwapBuffers]
   \<and> renders (final_state (mainLoop 0 ''10.0.0.2'' 3 sample_env (initial_state 800 600 0))) = 2
   \<and> checks (final_state (mainLoop 0 ''10.0.0.2'' 3 sample_env (initial_state 800 600 0))) = 3"
  using mainLoop_frame_order [of sample_env 2 "initial_state 800 600 0" 3 0 "''10.0.0.2''"]
  by (simp add: sample_env_def initial_state_def numeral_2_eq_2)

subsection \<open>C3: the window title\<close>

text \<open>
  Claim C3. A pass through the loop body sets the window title once, as the call that
  follows the render step, to \<^verbatim>\<open>CIS565 Path Tracer | \<close>, the global \<^verbatim>\<open>iteration\<close> as it
  stands when the render step has returned, converted by \<^verbatim>\<open>convertIntToString\<close>, and
  \<^verbatim>\<open> Iterations\<close>. Over a whole run that ends after \<open>n\<close> passes, the render steps and the
  title updates alternate, \<open>n\<close> of each, and the \<open>k\<close>-th title shows the iteration count
  left by the \<open>k\<close>-th render step.
\<close>

theorem title_set_each_frame:
  "trace (frame e t) =
     trace t @
     [GlfwPollEvents, RunCuda,
      GlfwSetWindowTitle (window t)
        (''CIS565 Path Tracer | '' @
         convertIntToString e (iteration (runCuda e (glfwPollEvents t))) @ '' Iterations''),
      GlBindBuffer GL_PIXEL_UNPACK_BUFFER (pbo t),
      GlBindTexture GL_TEXTURE_2D (displayImage t),
      GlTexSubImage2D GL_TEXTURE_2D 0 0 0 (width t) (height t) GL_RGBA GL_UNSIGNED_BYTE,
      GlClear GL_COLOR_BUFFER_BIT,
      GlDrawElements GL_TRIANGLES 6 GL_UNSIGNED_SHORT 0,
      GlfwSwapBuffers (window t)]
   \<and> (glfwInit_ok e \<and> (\<forall>j<n. \<not> shouldClose e (checks s + j)) \<and> shouldClose e (checks s + n)
        \<and> n < fuel \<longrightarrow>
      filter is_render_or_title
        (calls_since (final_state (init e s)) (final_state (mainLoop pMgr client_ip fuel e s))) =
      concat (map (\<lambda>k.
          [RunCuda,
           GlfwSetWindowTitle (glfwCreateWindow_result e)
             (''CIS565 Path Tracer | '' @
              convertIntToString e (iteration_after e (renders s + k)) @ '' Iterations'')])
        [0..<n]))"
proof -
  have frame: "trace (frame e t) =
     trace t @
     [GlfwPollEvents, RunCuda,
      GlfwSetWindowTitle (window t)
        (''CIS565 Path Tracer | '' @
         convertIntToString e (iteration (runCuda e (glfwPollEvents t))) @ '' Iterations''),
      GlBindBuffer GL_PIXEL_UNPACK_BUFFER (pbo t),
      GlBindTexture GL_TEXTURE_2D (displayImage t),
      GlTexSubImage2D GL_TEXTURE_2D 0 0 0 (width t) (height t) GL_RGBA GL_UNSIGNED_BYTE,
      GlClear GL_COLOR_BUFFER_BIT,
      GlDrawElements GL_TRIANGLES 6 GL_UNSIGNED_SHORT 0,
      GlfwSwapBuffers (window t)]"
    by (simp add: window_title_def runCuda_def glfwPollEvents_def)
  have run: "filter is_render_or_title
        (calls_since (final_state (init e s)) (final_state (mainLoop pMgr client_ip fuel e s))) =
      concat (map (\<lambda>k.
          [RunCuda,
           GlfwSetWindowTitle (glfwCreateWindow_result e)
             (''CIS565 Path Tracer | '' @
              convertIntToString e (iteration_after e (renders s + k)) @ '' Iterations'')])
        [0..<n])"
    if "glfwInit_ok e" "\<forall>j<n. \<not> shouldClose e (checks s + j)" "shouldClose e (checks s + n)"
      "n < fuel"
    using that(1)
    by (simp add: calls_since_def trace_mainLoop_closes [OF that] filter_concat comp_def
        titles_of_pass_calls init_returns_fields window_title_def)
  from frame run show ?thesis by blast
qed

theorem title_set_each_frame_witness:
  "glfwInit_ok sample_env
   \<and> \<not> shouldClose sample_env 0 \<and> \<not> shouldClose sample_env (Suc 0) \<and> shouldClose sample_env 2
   \<and> filter is_render_or_title
        (calls_since (final_state (init sample_env (initial_state 800 600 0)))
           (final_state (mainLoop 0 ''10.0.0.2'' 3 sample_env (initial_state 800 600 0)))) =
      [RunCuda, GlfwSetWindowTitle 1 ''CIS565 Path Tracer | 1 Iterations'',
       RunCuda, GlfwSetWindowTitle 1 ''CIS565 Path Tracer | 2 Iterations'']"
proof -
  have "filter is_render_or_title
        (calls_since (final_state (init sample_env (initial_state 800 600 0)))
           (final_state (mainLoop 0 ''10.0.0.2'' 3 sample_env (initial_state 800 600 0)))) =
      concat (map (\<lambda>k.
          [RunCuda,
           GlfwSetWindowTitle (glfwCreateWindow_result sample_env)
             (''CIS565 Path Tracer | '' @
              convertIntToString sample_env
                (iteration_after sample_env (renders (initial_state 800 600 0) + k)) @
              '' Iterations'')])
        [0..<2])"
    using title_set_each_frame [of sample_env "initial_state 800 600 0" 2 "initial_state 800 600 0" 3 0 "''10.0.0.2''",
        THEN conjunct2]
      sample_env_answers(1) sample_env_first_closes_at_2 [of 800 600 0]
    by simp
  then show ?thesis
    by (simp add: sample_env_answers upt_0_2 initial_state_counters sample_env_titles)
qed

subsection \<open>C4: what the exit-time hook releases\<close>




subsection \<open>C5: no wire protocol\<close>

text \<open>
  Claim C5. What \<^verbatim>\<open>mainLoop\<close> does never depends on its two arguments, the packet manager
  and the client address; and however long it runs (whether it returns, exits, or is
  still looping when the fuel runs out) it adds no network send to the trace.
\<close>

theorem mainLoop_no_network:
  "mainLoop pMgr client_ip fuel e s = mainLoop pMgr' client_ip' fuel e s
   \<and> filter is_send (trace (final_state (mainLoop pMgr client_ip fuel e s))) =
       filter is_send (trace s)"
proof -
  have 1: "mainLoop pMgr client_ip fuel e s = mainLoop pMgr' client_ip' fuel e s"
    by (simp add: mainLoop_def)
  have 2: "filter is_send (trace (final_state (mainLoop pMgr client_ip fuel e s))) =
       filter is_send (trace s)"
  proof (cases "init e s")
    case (Returned ok s1)
    have s1: "filter is_send (trace s1) = filter is_send (trace s)"
      using no_send_init [of e s] Returned by simp
    have "filter is_send (trace (final_state (renderLoop fuel e s1))) = filter is_send (trace s1)"
      by simp
    then show ?thesis
      using Returned s1 by (cases "renderLoop fuel e s1") (simp_all add: trace_final_mainLoop)
  next
    case (Exited c s1)
    then show ?thesis
      using no_send_init [of e s] by (simp add: trace_final_mainLoop)
  next
    case (OutOfFuel s1)
    then show ?thesis
      using no_send_init [of e s] by (simp add: trace_final_mainLoop)
  qed
  from 1 2 show ?thesis ..
qed

theorem mainLoop_no_network_witness:
  "mainLoop 0 ''10.0.0.2'' 3 sample_env (initial_state 800 600 0) =
     mainLoop 7 ''192.168.0.9'' 3 sample_env (initial_state 800 600 0)
   \<and> filter is_send
       (trace (final_state (mainLoop 0 ''10.0.0.2'' 3 sample_env (initial_state 800 600 0)))) = []"
proof -
  note run = mainLoop_no_network [of 0 "''10.0.0.2''" 3 sample_env "initial_state 800 600 0" 7 "''192.168.0.9''"]
  have start: "filter is_send (trace (initial_state 800 600 0)) = []"
    by (simp add: initial_state_def)
  show ?thesis
  proof (intro conjI)
    show "mainLoop 0 ''10.0.0.2'' 3 sample_env (initial_state 800 600 0) =
        mainLoop 7 ''192.168.0.9'' 3 sample_env (initial_state 800 600 0)"
      by (rule run [THEN conjunct1])
    show "filter is_send
        (trace (final_state (mainLoop 0 ''10.0.0.2'' 3 sample_env (initial_state 800 600 0)))) = []"
      by (simp only: run [THEN conjunct2] start)
  qed
qed

subsection \<open>C6: the full-screen quad\<close>

text \<open>
  Claim C6. \<^verbatim>\<open>initVAO\<close> uploads eight floats read as the four positions \<open>(-1,-1)\<close>,
  \<open>(1,-1)\<close>, \<open>(1,1)\<close>, \<open>(-1,1)\<close>, eight floats read as four texture coordinates, one for
  each vertex, and the six indices \<open>0, 1, 3, 3, 1, 2\<close>, which are the two triangles
  \<open>(0,1,3)\<close> and \<open>(3,1,2)\<close>; every point of the square from \<open>(-1,-1)\<close> to \<open>(1,1)\<close> lies in
  one of the two. After an \<^verbatim>\<open>init\<close> that succeeds (the driver handing out for the index
  buffer a name that is not 0 and not the pixel buffer's), every frame of the loop
  copies the pixel buffer into the display texture and draws those six indices.
\<close>

theorem quad_setup_and_draw:
  "trace (initVAO e s) =
     trace s @
     [GlGenBuffers 3,
      GlBindBuffer GL_ARRAY_BUFFER (vertexBufferObjID e 0),
      GlBufferData GL_ARRAY_BUFFER 32 (FloatData vertices) GL_STATIC_DRAW,
      GlVertexAttribPointer 0 2 GL_FLOAT False 0 0,
      GlEnableVertexAttribArray 0,
      GlBindBuffer GL_ARRAY_BUFFER (vertexBufferObjID e 1),
      GlBufferData GL_ARRAY_BUFFER 32 (FloatData texcoords) GL_STATIC_DRAW,
      GlVertexAttribPointer 1 2 GL_FLOAT False 0 0,
      GlEnableVertexAttribArray 1,
      GlBindBuffer GL_ELEMENT_ARRAY_BUFFER (vertexBufferObjID e 2),
      GlBufferData GL_ELEMENT_ARRAY_BUFFER 12 (UShortData indices) GL_STATIC_DRAW]
   \<and> pairs vertices = [(-1, -1), (1, -1), (1, 1), (-1, 1)]
   \<and> pairs texcoords = [(1, 1), (0, 1), (0, 0), (1, 0)]
   \<and> indices = [0, 1, 3, 3, 1, 2]
   \<and> triples indices = [(0, 1, 3), (3, 1, 2)]
   \<and> (- 1 \<le> x \<and> x \<le> 1 \<and> - 1 \<le> y \<and> y \<le> 1 \<longrightarrow>
        in_triangle (0, 1, 3) (x, y) \<or> in_triangle (3, 1, 2) (x, y))
   \<and> (glfwInit_ok e \<and> glfwCreateWindow_result e \<noteq> NULL \<and> glewInit_ok e
        \<and> vertexBufferObjID e 2 \<noteq> 0 \<and> pbo_name e \<noteq> vertexBufferObjID e 2
        \<and> (\<forall>j<n. \<not> shouldClose e (checks s + j)) \<and> shouldClose e (checks s + n) \<and> n < fuel \<longrightarrow>
        draws (final_state (mainLoop pMgr client_ip fuel e s)) = draws s @ replicate n indices
        \<and> uploads (final_state (mainLoop pMgr client_ip fuel e s)) =
            uploads s @ replicate n (pbo_name e, texture_name e))"
proof -
  have data: "pairs vertices = [(-1, -1), (1, -1), (1, 1), (-1, 1)]"
    "pairs texcoords = [(1, 1), (0, 1), (0, 0), (1, 0)]"
    "indices = [0, 1, 3, 3, 1, 2]"
    "triples indices = [(0, 1, 3), (3, 1, 2)]"
    by (simp_all add: vertices_def texcoords_def indices_def)
  have loop: "draws (final_state (mainLoop pMgr client_ip fuel e s)) = draws s @ replicate n indices
        \<and> uploads (final_state (mainLoop pMgr client_ip fuel e s)) =
            uploads s @ replicate n (pbo_name e, texture_name e)"
    if ok: "glfwInit_ok e" "glfwCreateWindow_result e \<noteq> NULL" "glewInit_ok e"
      and names: "vertexBufferObjID e 2 \<noteq> 0" "pbo_name e \<noteq> vertexBufferObjID e 2"
      and close: "\<forall>j<n. \<not> shouldClose e (checks s + j)" "shouldClose e (checks s + n)" "n < fuel"
    by (simp add: mainLoop_closes [OF ok(1) close] glfwTerminate_def glfwDestroyWindow_def
        glfwWindowShouldClose_def draws_passes uploads_passes
        fetch_indices_after_init [OF ok names] init_ok_fields [OF ok])
  from data quad_covered loop show ?thesis
    by (simp only: initVAO_fields simp_thms) blast
qed

theorem quad_setup_and_draw_witness:
  "- 1 \<le> (1 / 2 :: real) \<and> (1 / 2 :: real) \<le> 1 \<and> - 1 \<le> (- 1 / 4 :: real) \<and> (- 1 / 4 :: real) \<le> 1
   \<and> (in_triangle (0, 1, 3) (1 / 2, - 1 / 4) \<or> in_triangle (3, 1, 2) (1 / 2, - 1 / 4))
   \<and> glfwInit_ok sample_env \<and> glfwCreateWindow_result sample_env \<noteq> NULL \<and> glewInit_ok sample_env
   \<and> vertexBufferObjID sample_env 2 \<noteq> 0 \<and> pbo_name sample_env \<noteq> vertexBufferObjID sample_env 2
   \<and> \<not> shouldClose sample_env 0 \<and> \<not> shouldClose sample_env (Suc 0) \<and> shouldClose sample_env 2
   \<and> draws (final_state (mainLoop 0 ''10.0.0.2'' 3 sample_env (initial_state 800 600 0))) =
       [[0, 1, 3, 3, 1, 2], [0, 1, 3, 3, 1, 2]]
   \<and> uploads (final_state (mainLoop 0 ''10.0.0.2'' 3 sample_env (initial_state 800 600 0))) =
       [(4, 1), (4, 1)]"
proof -
  note q = quad_setup_and_draw [of sample_env "initial_state 800 600 0" "1 / 2" "- 1 / 4" 2 3 0 "''10.0.0.2''"]
  have cover: "in_triangle (0, 1, 3) (1 / 2, - 1 / 4 :: real) \<or> in_triangle (3, 1, 2) (1 / 2, - 1 / 4)"
    using q by simp
  have names: "glfwCreateWindow_result sample_env \<noteq> NULL" "vertexBufferObjID sample_env 2 \<noteq> 0"
    "pbo_name sample_env \<noteq> vertexBufferObjID sample_env 2"
    by (simp_all add: sample_env_answers NULL_def)
  have "draws (final_state (mainLoop 0 ''10.0.0.2'' 3 sample_env (initial_state 800 600 0))) =
          draws (initial_state 800 600 0) @ replicate 2 indices
        \<and> uploads (final_state (mainLoop 0 ''10.0.0.2'' 3 sample_env (initial_state 800 600 0))) =
          uploads (initial_state 800 600 0) @ replicate 2 (pbo_name sample_env, texture_name sample_env)"
    using q names sample_env_answers(1,2) sample_env_first_closes_at_2 [of 800 600 0]
    by simp
  then have loop: "draws (final_state (mainLoop 0 ''10.0.0.2'' 3 sample_env (initial_state 800 600 0))) =
       [[0, 1, 3, 3, 1, 2], [0, 1, 3, 3, 1, 2]]
     \<and> uploads (final_state (mainLoop 0 ''10.0.0.2'' 3 sample_env (initial_state 800 600 0))) =
       [(4, 1), (4, 1)]"
    by (simp add: initial_state_def sample_env_answers indices_def numeral_2_eq_2)
  from cover names loop show ?thesis
    by (simp add: sample_env_answers)
qed

subsection \<open>C8: mainLoop ignores the result of init\<close>

text \<open>
  Claim C8. When \<^verbatim>\<open>init\<close> returns false, \<^verbatim>\<open>mainLoop\<close> goes on as it does after a
  successful \<^verbatim>\<open>init\<close>: it runs the render loop from the state that \<^verbatim>\<open>init\<close> left. Its
  next call evaluates the loop condition on the global \<^verbatim>\<open>window\<close>, and unless that finds
  the should-close flag set, the calls of a frame follow, with the window and the two
  GPU handles as \<^verbatim>\<open>init\<close> left them.
\<close>

theorem mainLoop_ignores_init_result:
  assumes "returned_value (init e s) = Some False"
  shows "mainLoop pMgr client_ip fuel e s =
       (case renderLoop fuel e (final_state (init e s)) of
          Returned u s' \<Rightarrow> Returned () (glfwTerminate (glfwDestroyWindow (window s') s'))
        | Exited c s' \<Rightarrow> Exited c s'
        | OutOfFuel s' \<Rightarrow> OutOfFuel s')
     \<and> (\<exists>rest. trace (final_state (mainLoop pMgr client_ip (Suc fuel) e s)) =
           trace (final_state (init e s)) @
           GlfwWindowShouldClose (window (final_state (init e s))) # rest)
     \<and> (\<not> shouldClose e (checks s) \<longrightarrow>
         (\<exists>rest. trace (final_state (mainLoop pMgr client_ip (Suc fuel) e s)) =
           trace (final_state (init e s)) @ pass_calls e (final_state (init e s)) 0 @ rest))"
proof -
  let ?s1 = "final_state (init e s)"
  have glfw: "glfwInit_ok e"
    using assms by (simp add: init_returned_value split: if_splits)
  obtain r1 where r1: "trace (final_state (mainLoop pMgr client_ip (Suc fuel) e s)) =
      trace (final_state (renderLoop (Suc fuel) e ?s1)) @ r1"
    using mainLoop_grows [OF assms] by blast
  obtain r2 where r2: "trace (final_state (renderLoop (Suc fuel) e ?s1)) =
      trace ?s1 @ GlfwWindowShouldClose (window ?s1) # r2"
    using renderLoop_first_check by blast
  have a: "\<exists>rest. trace (final_state (mainLoop pMgr client_ip (Suc fuel) e s)) =
           trace ?s1 @ GlfwWindowShouldClose (window ?s1) # rest"
    using r1 r2 by simp
  have b: "\<exists>rest. trace (final_state (mainLoop pMgr client_ip (Suc fuel) e s)) =
           trace ?s1 @ pass_calls e ?s1 0 @ rest" if "\<not> shouldClose e (checks s)"
  proof -
    have "\<not> shouldClose e (checks ?s1)"
      using that glfw by (simp add: init_returns_fields)
    then obtain r3 where "trace (final_state (renderLoop (Suc fuel) e ?s1)) =
        trace ?s1 @ pass_calls e ?s1 0 @ r3"
      using renderLoop_first_pass by blast
    with r1 show ?thesis by simp
  qed
  from mainLoop_after_init [OF assms] a b show ?thesis by blast
qed

theorem mainLoop_ignores_init_result_witness:
  "returned_value (init (sample_env\<lparr>glfwCreateWindow_result := NULL\<rparr>) (initial_state 800 600 0)) = Some False
   \<and> \<not> shouldClose (sample_env\<lparr>glfwCreateWindow_result := NULL\<rparr>) (checks (initial_state 800 600 0))
   \<and> (\<exists>rest. trace (final_state (mainLoop 0 ''10.0.0.2'' (Suc 0)
          (sample_env\<lparr>glfwCreateWindow_result := NULL\<rparr>) (initial_state 800 600 0))) =
        [GlfwSetErrorCallback, GlfwInit, GlfwCreateWindow 800 600 ''CIS 565 Path Tracer'',
         GlfwTerminate,
         GlfwWindowShouldClose NULL, GlfwPollEvents, RunCuda,
         GlfwSetWindowTitle NULL ''CIS565 Path Tracer | 1 Iterations'',
         GlBindBuffer GL_PIXEL_UNPACK_BUFFER 0, GlBindTexture GL_TEXTURE_2D 0,
         GlTexSubImage2D GL_TEXTURE_2D 0 0 0 800 600 GL_RGBA GL_UNSIGNED_BYTE,
         GlClear GL_COLOR_BUFFER_BIT, GlDrawElements GL_TRIANGLES 6 GL_UNSIGNED_SHORT 0,
         GlfwSwapBuffers NULL] @ rest)"
proof -
  let ?e = "sample_env\<lparr>glfwCreateWindow_result := NULL\<rparr>"
  let ?s = "initial_state 800 600 0"
  have e: "glfwInit_ok ?e" "glfwCreateWindow_result ?e = NULL"
    by (simp_all add: sample_env_def)
  have ret: "returned_value (init ?e ?s) = Some False"
    using e by (simp add: init_returned_value)
  have open0: "\<not> shouldClose ?e (checks ?s)"
    by (simp add: sample_env_def initial_state_def)
  have title: "window_title ?e (iteration_after ?e (renders ?s)) = ''CIS565 Path Tracer | 1 Iterations''"
    using sample_env_titles(1) by (simp add: window_title_def initial_state_def sample_env_def)
  have calls: "trace (final_state (init ?e ?s)) @ pass_calls ?e (final_state (init ?e ?s)) 0 =
        [GlfwSetErrorCallback, GlfwInit, GlfwCreateWindow 800 600 ''CIS 565 Path Tracer'',
         GlfwTerminate,
         GlfwWindowShouldClose NULL, GlfwPollEvents, RunCuda,
         GlfwSetWindowTitle NULL ''CIS565 Path Tracer | 1 Iterations'',
         GlBindBuffer GL_PIXEL_UNPACK_BUFFER 0, GlBindTexture GL_TEXTURE_2D 0,
         GlTexSubImage2D GL_TEXTURE_2D 0 0 0 800 600 GL_RGBA GL_UNSIGNED_BYTE,
         GlClear GL_COLOR_BUFFER_BIT, GlDrawElements GL_TRIANGLES 6 GL_UNSIGNED_SHORT 0,
         GlfwSwapBuffers NULL]"
    using title by (simp add: init_no_window_fields [OF e] pass_calls_def) (simp add: initial_state_def)
  from mainLoop_ignores_init_result [OF ret, of 0 "''10.0.0.2''" 0] open0
  obtain rest where "trace (final_state (mainLoop 0 ''10.0.0.2'' (Suc 0) ?e ?s)) =
      (trace (final_state (init ?e ?s)) @ pass_calls ?e (final_state (init ?e ?s)) 0) @ rest"
    by auto
  with calls ret open0 show ?thesis by simp
qed

subsection \<open>C9: cleanupCuda is idempotent\<close>

text \<open>
  Claim C9. A call of \<^verbatim>\<open>cleanupCuda\<close> leaves \<^verbatim>\<open>pbo\<close> and \<^verbatim>\<open>displayImage\<close> zero, and a second
  call changes nothing: the state after it, the trace of calls and the sets of live
  objects included, is the state before it.
\<close>

theorem cleanupCuda_idempotent:
  "pbo (cleanupCuda s) = 0 \<and> displayImage (cleanupCuda s) = 0
   \<and> cleanupCuda (cleanupCuda s) = cleanupCuda s"
proof -
  have "cleanupCuda t = t" if "pbo t = 0" "displayImage t = 0" for t
    using that by (simp add: cleanupCuda_def)
  then show ?thesis by simp
qed

theorem cleanupCuda_idempotent_witness:
  "pbo (final_state (init sample_env (initial_state 800 600 0))) = 4
   \<and> displayImage (final_state (init sample_env (initial_state 800 600 0))) = 1
   \<and> pbo (cleanupCuda (final_state (init sample_env (initial_state 800 600 0)))) = 0
   \<and> displayImage (cleanupCuda (final_state (init sample_env (initial_state 800 600 0)))) = 0
   \<and> cleanupCuda (cleanupCuda (final_state (init sample_env (initial_state 800 600 0)))) =
       cleanupCuda (final_state (init sample_env (initial_state 800 600 0)))"
proof -
  have ok: "glfwInit_ok sample_env" "glfwCreateWindow_result sample_env \<noteq> NULL" "glewInit_ok sample_env"
    by (simp_all add: sample_env_answers NULL_def)
  have "pbo (final_state (init sample_env (initial_state 800 600 0))) = 4"
    "displayImage (final_state (init sample_env (initial_state 800 600 0))) = 1"
    by (simp_all add: init_ok_fields [OF ok] sample_env_answers)
  with cleanupCuda_idempotent [of "final_state (init sample_env (initial_state 800 600 0))"]
  show ?thesis by blast
qed

subsection \<open>C10: the size of the pixel buffer\<close>

text \<open>
  Claim C10, as amended. Provided \<open>width * height * 4\<close> fits the 32-bit \<^verbatim>\<open>int\<close> (and
  the driver hands out a buffer name other than 0), the data store that \<^verbatim>\<open>initPBO\<close>
  allocates for the pixel buffer has exactly \<open>width * height * 4\<close> bytes, four for each
  texel of the \<open>width\<close> by \<open>height\<close> image in format \<open>GL_RGBA8\<close> that \<^verbatim>\<open>initTextures\<close>
  allocates for the display texture; and so it is after an \<^verbatim>\<open>init\<close> that succeeds.
\<close>

theorem pbo_size_matches_texture:
  assumes "pbo_name e \<noteq> 0"
    and "- (2 ^ 31) \<le> sint (width s) * sint (height s) * 4"
    and "sint (width s) * sint (height s) * 4 < 2 ^ 31"
  shows "buffer_store (initPBO e s) (pbo (initPBO e s)) =
           Some (sint (width s) * sint (height s) * 4, NullData)
     \<and> texture_store (initTextures e s) (displayImage (initTextures e s)) =
           Some (GL_RGBA8, sint (width s), sint (height s))
     \<and> (glfwInit_ok e \<and> glfwCreateWindow_result e \<noteq> NULL \<and> glewInit_ok e \<longrightarrow>
          buffer_store (final_state (init e s)) (pbo (final_state (init e s))) =
            Some (sint (width s) * sint (height s) * 4, NullData)
          \<and> texture_store (final_state (init e s)) (displayImage (final_state (init e s))) =
            Some (GL_RGBA8, sint (width s), sint (height s)))"
  using assms
  by (simp add: sint_size_tex_data init_ok_fields init_ok_pixel_buffer)

theorem pbo_size_matches_texture_witness:
  "pbo_name sample_env \<noteq> 0
   \<and> - (2 ^ 31) \<le> sint (width (initial_state 800 600 0)) * sint (height (initial_state 800 600 0)) * 4
   \<and> sint (width (initial_state 800 600 0)) * sint (height (initial_state 800 600 0)) * 4 < 2 ^ 31
   \<and> glfwInit_ok sample_env \<and> glfwCreateWindow_result sample_env \<noteq> NULL \<and> glewInit_ok sample_env
   \<and> buffer_store (final_state (init sample_env (initial_state 800 600 0)))
        (pbo (final_state (init sample_env (initial_state 800 600 0)))) =
      Some (1920000, NullData)
   \<and> texture_store (final_state (init sample_env (initial_state 800 600 0)))
        (displayImage (final_state (init sample_env (initial_state 800 600 0)))) =
      Some (GL_RGBA8, 800, 600)"
  using pbo_size_matches_texture [of sample_env "initial_state 800 600 0"]
  by (simp add: sample_env_def initial_state_def NULL_def)

text \<open>The claim as stated fails for a 32768 by 32768 image: \<open>width * height * 4\<close> is
  \<open>2 ^ 32\<close>, and the buffer is allocated with size 0.\<close>

theorem pbo_size_overflow_counterexample:
  "buffer_store (initPBO sample_env (initial_state 32768 32768 0))
      (pbo (initPBO sample_env (initial_state 32768 32768 0))) = Some (0, NullData)
   \<and> sint (width (initial_state 32768 32768 0)) * sint (height (initial_state 32768 32768 0)) * 4
      = 4294967296"
  by (simp add: sample_env_def initial_state_def size_tex_data_eq)

end
